theory Spec2Isabelle
  imports Complex_Main "HOL-Library.Word"
begin

unbundle bit_operations_syntax

section \<open>Values decoded from JSON\<close>

text \<open>
  \<^verbatim>\<open>json.loads\<close> yields \<^verbatim>\<open>None\<close>, \<^verbatim>\<open>bool\<close>, \<^verbatim>\<open>int\<close>, \<^verbatim>\<open>float\<close>, \<^verbatim>\<open>str\<close>, \<^verbatim>\<open>list\<close> and
  \<^verbatim>\<open>dict\<close> with string keys. A dict is an association list read through \<open>map_of\<close>
  (the first binding of a key is the one the dict holds). Python ints are unbounded;
  a finite float is the real number it denotes.
\<close>

datatype json =
    JNull
  | JBool bool
  | JInt int
  | JFloat real
  | JStr string
  | JArr "json list"
  | JObj "(string \<times> json) list"

type_synonym pydict = "(string \<times> json) list"

datatype error =
    TypeError | AttributeError | ValueError | ValidationError
  | OSError | CollaboratorError | ProcessingFailed

definition bind_res :: "error + 'a \<Rightarrow> ('a \<Rightarrow> error + 'b) \<Rightarrow> error + 'b" where
  "bind_res m f = (case m of Inl e \<Rightarrow> Inl e | Inr x \<Rightarrow> f x)"

fun mapM_res :: "('a \<Rightarrow> error + 'b) \<Rightarrow> 'a list \<Rightarrow> error + 'b list" where
  "mapM_res f [] = Inr []"
| "mapM_res f (x # xs) =
     (case f x of
        Inl e \<Rightarrow> Inl e
      | Inr y \<Rightarrow> (case mapM_res f xs of Inl e \<Rightarrow> Inl e | Inr ys \<Rightarrow> Inr (y # ys)))"

text \<open>\<^verbatim>\<open>d.get(k, default)\<close> and \<^verbatim>\<open>d.get(k)\<close> on a dict.\<close>

definition dget :: "pydict \<Rightarrow> string \<Rightarrow> json \<Rightarrow> json" where
  "dget d k dflt = (case map_of d k of None \<Rightarrow> dflt | Some v \<Rightarrow> v)"

definition dget_none :: "pydict \<Rightarrow> string \<Rightarrow> json" where
  "dget_none d k = dget d k JNull"

text \<open>\<^verbatim>\<open>x.get\<close> exists only on a dict: every other decoded value raises AttributeError.\<close>

fun as_dict :: "json \<Rightarrow> error + pydict" where
  "as_dict (JObj d) = Inr d"
| "as_dict _ = Inl AttributeError"

text \<open>\<^verbatim>\<open>Model(**x)\<close>: the argument after \<^verbatim>\<open>**\<close> must be a mapping, else TypeError.\<close>

fun as_kwargs :: "json \<Rightarrow> error + pydict" where
  "as_kwargs (JObj d) = Inr d"
| "as_kwargs _ = Inl TypeError"

text \<open>
  \<^verbatim>\<open>for x in v\<close>: a list yields its elements, a str its one-character strings, a dict its
  keys; \<^verbatim>\<open>None\<close>, bools and numbers are not iterable.
\<close>

fun py_iter :: "json \<Rightarrow> error + json list" where
  "py_iter (JArr xs) = Inr xs"
| "py_iter (JStr s) = Inr (map (\<lambda>c. JStr [c]) s)"
| "py_iter (JObj d) = Inr (map JStr (remdups (map fst d)))"
| "py_iter _ = Inl TypeError"

text \<open>Truth value of a decoded value, as \<^verbatim>\<open>if x\<close> tests it.\<close>

fun truthy :: "json \<Rightarrow> bool" where
  "truthy JNull = False"
| "truthy (JBool b) = b"
| "truthy (JInt i) = (i \<noteq> 0)"
| "truthy (JFloat r) = (r \<noteq> 0)"
| "truthy (JStr s) = (s \<noteq> [])"
| "truthy (JArr xs) = (xs \<noteq> [])"
| "truthy (JObj d) = (d \<noteq> [])"

section \<open>models.py\<close>

datatype Priority = HIGH | MEDIUM | LOW

datatype TaskStatus = PENDING | IN_PROGRESS | COMPLETED

datatype Emotion = HAPPY | SAD | ANGRY | NEUTRAL | CONCERNED | CALM

text \<open>
  \<^verbatim>\<open>Priority(v)\<close>, \<^verbatim>\<open>TaskStatus(v)\<close>, \<^verbatim>\<open>Emotion(v)\<close>: the enum constructor looks the value up
  among the members' values (all of them strings) and raises ValueError when there is
  none.
\<close>

fun Priority_of :: "json \<Rightarrow> error + Priority" where
  "Priority_of (JStr s) =
     (if s = ''HIGH'' then Inr HIGH
      else if s = ''MEDIUM'' then Inr MEDIUM
      else if s = ''LOW'' then Inr LOW
      else Inl ValueError)"
| "Priority_of _ = Inl ValueError"

fun TaskStatus_of :: "json \<Rightarrow> error + TaskStatus" where
  "TaskStatus_of (JStr s) =
     (if s = ''PENDING'' then Inr PENDING
      else if s = ''IN_PROGRESS'' then Inr IN_PROGRESS
      else if s = ''COMPLETED'' then Inr COMPLETED
      else Inl ValueError)"
| "TaskStatus_of _ = Inl ValueError"

fun Emotion_of :: "json \<Rightarrow> error + Emotion" where
  "Emotion_of (JStr s) =
     (if s = ''happy'' then Inr HAPPY
      else if s = ''sad'' then Inr SAD
      else if s = ''angry'' then Inr ANGRY
      else if s = ''neutral'' then Inr NEUTRAL
      else if s = ''concerned'' then Inr CONCERNED
      else if s = ''calm'' then Inr CALM
      else Inl ValueError)"
| "Emotion_of _ = Inl ValueError"

fun Priority_value :: "Priority \<Rightarrow> string" where
  "Priority_value HIGH = ''HIGH''"
| "Priority_value MEDIUM = ''MEDIUM''"
| "Priority_value LOW = ''LOW''"

fun TaskStatus_value :: "TaskStatus \<Rightarrow> string" where
  "TaskStatus_value PENDING = ''PENDING''"
| "TaskStatus_value IN_PROGRESS = ''IN_PROGRESS''"
| "TaskStatus_value COMPLETED = ''COMPLETED''"

fun Emotion_value :: "Emotion \<Rightarrow> string" where
  "Emotion_value HAPPY = ''happy''"
| "Emotion_value SAD = ''sad''"
| "Emotion_value ANGRY = ''angry''"
| "Emotion_value NEUTRAL = ''neutral''"
| "Emotion_value CONCERNED = ''concerned''"
| "Emotion_value CALM = ''calm''"

subsection \<open>Field validation of the model classes\<close>

text \<open>
  The models are pydantic \<^verbatim>\<open>BaseModel\<close>s (version 2: main.py calls \<^verbatim>\<open>model_dump\<close>) with the
  default configuration: a field's value is validated against the field's type, a
  missing field takes its default or fails when it has none, unknown keywords are
  ignored, and any failure raises one ValidationError.
  A \<^verbatim>\<open>str\<close> field accepts only a str; \<^verbatim>\<open>Optional[T]\<close> accepts \<^verbatim>\<open>None\<close> as well;
  \<^verbatim>\<open>List[str]\<close> accepts only a list of strs.
  An \<^verbatim>\<open>int\<close> field accepts an int, a bool (0 or 1), a float without fractional part
  that lies in the signed 64-bit range, and the strings the library reads as integers:
  that reading is the parameter \<open>int_of_str\<close>.
\<close>

fun v_str :: "json \<Rightarrow> error + string" where
  "v_str (JStr s) = Inr s"
| "v_str _ = Inl ValidationError"

fun v_opt_str :: "json \<Rightarrow> error + string option" where
  "v_opt_str JNull = Inr None"
| "v_opt_str (JStr s) = Inr (Some s)"
| "v_opt_str _ = Inl ValidationError"

fun v_str_list :: "json \<Rightarrow> error + string list" where
  "v_str_list (JArr xs) = mapM_res v_str xs"
| "v_str_list _ = Inl ValidationError"

fun v_opt_int :: "(string \<Rightarrow> int option) \<Rightarrow> json \<Rightarrow> error + int option" where
  "v_opt_int int_of_str JNull = Inr None"
| "v_opt_int int_of_str (JInt i) = Inr (Some i)"
| "v_opt_int int_of_str (JBool b) = Inr (Some (if b then 1 else 0))"
| "v_opt_int int_of_str (JFloat r) =
     (if r = of_int \<lfloor>r\<rfloor> \<and> - (2 ^ 63) \<le> \<lfloor>r\<rfloor> \<and> \<lfloor>r\<rfloor> < 2 ^ 63
      then Inr (Some \<lfloor>r\<rfloor>)
      else Inl ValidationError)"
| "v_opt_int int_of_str (JStr s) =
     (case int_of_str s of None \<Rightarrow> Inl ValidationError | Some i \<Rightarrow> Inr (Some i))"
| "v_opt_int int_of_str _ = Inl ValidationError"

text \<open>A keyword of \<^verbatim>\<open>Model(**kw)\<close>: required, or with a default.\<close>

definition kw_required :: "pydict \<Rightarrow> string \<Rightarrow> (json \<Rightarrow> error + 'a) \<Rightarrow> error + 'a" where
  "kw_required kw k v = (case map_of kw k of None \<Rightarrow> Inl ValidationError | Some x \<Rightarrow> v x)"

definition kw_default :: "pydict \<Rightarrow> string \<Rightarrow> (json \<Rightarrow> error + 'a) \<Rightarrow> 'a \<Rightarrow> error + 'a" where
  "kw_default kw k v dflt = (case map_of kw k of None \<Rightarrow> Inr dflt | Some x \<Rightarrow> v x)"

record TranscriptSegment =
  seg_speaker :: string
  seg_timestamp :: string
  seg_content :: string
  seg_language :: string
  seg_language_code :: string
  seg_translation :: "string option"
  seg_emotion :: Emotion

record Symptom =
  sym_name :: string
  sym_severity :: "string option"
  sym_duration :: "string option"
  sym_notes :: "string option"

record Diagnosis =
  dx_condition :: string
  dx_icd_code :: "string option"
  dx_confidence :: "string option"
  dx_notes :: "string option"

record Medication =
  med_drug_name :: string
  med_dosage :: string
  med_frequency :: string
  med_route :: "string option"
  med_duration :: "string option"
  med_instructions :: "string option"

record VitalSign =
  vs_type :: string
  vs_value :: string
  vs_time :: "string option"
  vs_notes :: "string option"

record PatientInfo =
  pi_name :: "string option"
  pi_age :: "string option"
  pi_gender :: "string option"
  pi_bed_number :: "string option"
  pi_admission_date :: "string option"

record InsuranceIssue =
  ins_severity :: string
  ins_rule_violated :: string
  ins_missing_evidence :: string
  ins_suggestion :: string

record NurseHandover =
  nh_summary_sbar :: string
  nh_critical_alerts :: "string list"
  nh_pending_actions :: "string list"

record PatientSummary =
  ps_translated_content :: string
  ps_whatsapp_message :: string

record MedicalDocumentation =
  doc_patient_info :: PatientInfo
  doc_chief_complaints :: "string list"
  doc_symptoms :: "Symptom list"
  doc_vital_signs :: "VitalSign list"
  doc_diagnoses :: "Diagnosis list"
  doc_medications :: "Medication list"
  doc_procedures :: "string list"
  doc_instructions :: "string list"
  doc_follow_up :: "string option"
  doc_insurance_audit :: "InsuranceIssue list"
  doc_nurse_handover :: "NurseHandover option"
  doc_patient_summary :: "PatientSummary option"
  doc_notes :: "string option"

record NurseTask =
  task_id :: string
  task_description :: string
  task_priority :: Priority
  task_type :: string
  task_due_time :: "string option"
  task_due_minutes :: "int option"
  task_patient_identifier :: "string option"
  task_medication_details :: "Medication option"
  task_status :: TaskStatus
  task_notes :: "string option"

record ProcessingResult =
  res_summary :: string
  res_transcript_segments :: "TranscriptSegment list"
  res_documentation :: MedicalDocumentation
  res_nurse_tasks :: "NurseTask list"
  res_processing_time :: "real option"

text \<open>\<^verbatim>\<open>Symptom(**kw)\<close> and its siblings: the class called on a dict of keywords.\<close>

definition Symptom_kw :: "pydict \<Rightarrow> error + Symptom" where
  "Symptom_kw kw =
     bind_res (kw_required kw ''name'' v_str) (\<lambda>n.
     bind_res (kw_default kw ''severity'' v_opt_str None) (\<lambda>sv.
     bind_res (kw_default kw ''duration'' v_opt_str None) (\<lambda>du.
     bind_res (kw_default kw ''notes'' v_opt_str None) (\<lambda>no.
     Inr \<lparr>sym_name = n, sym_severity = sv, sym_duration = du, sym_notes = no\<rparr>))))"

definition Diagnosis_kw :: "pydict \<Rightarrow> error + Diagnosis" where
  "Diagnosis_kw kw =
     bind_res (kw_required kw ''condition'' v_str) (\<lambda>c.
     bind_res (kw_default kw ''icd_code'' v_opt_str None) (\<lambda>ic.
     bind_res (kw_default kw ''confidence'' v_opt_str None) (\<lambda>cf.
     bind_res (kw_default kw ''notes'' v_opt_str None) (\<lambda>no.
     Inr \<lparr>dx_condition = c, dx_icd_code = ic, dx_confidence = cf, dx_notes = no\<rparr>))))"

definition Medication_kw :: "pydict \<Rightarrow> error + Medication" where
  "Medication_kw kw =
     bind_res (kw_required kw ''drug_name'' v_str) (\<lambda>dn.
     bind_res (kw_required kw ''dosage'' v_str) (\<lambda>ds.
     bind_res (kw_required kw ''frequency'' v_str) (\<lambda>fr.
     bind_res (kw_default kw ''route'' v_opt_str (Some ''oral'')) (\<lambda>ro.
     bind_res (kw_default kw ''duration'' v_opt_str None) (\<lambda>du.
     bind_res (kw_default kw ''instructions'' v_opt_str None) (\<lambda>ins.
     Inr \<lparr>med_drug_name = dn, med_dosage = ds, med_frequency = fr, med_route = ro,
          med_duration = du, med_instructions = ins\<rparr>))))))"

definition VitalSign_kw :: "pydict \<Rightarrow> error + VitalSign" where
  "VitalSign_kw kw =
     bind_res (kw_required kw ''type'' v_str) (\<lambda>ty.
     bind_res (kw_required kw ''value'' v_str) (\<lambda>va.
     bind_res (kw_default kw ''time'' v_opt_str None) (\<lambda>ti.
     bind_res (kw_default kw ''notes'' v_opt_str None) (\<lambda>no.
     Inr \<lparr>vs_type = ty, vs_value = va, vs_time = ti, vs_notes = no\<rparr>))))"

definition InsuranceIssue_kw :: "pydict \<Rightarrow> error + InsuranceIssue" where
  "InsuranceIssue_kw kw =
     bind_res (kw_required kw ''severity'' v_str) (\<lambda>sv.
     bind_res (kw_required kw ''rule_violated'' v_str) (\<lambda>rv.
     bind_res (kw_required kw ''missing_evidence'' v_str) (\<lambda>me.
     bind_res (kw_required kw ''suggestion'' v_str) (\<lambda>su.
     Inr \<lparr>ins_severity = sv, ins_rule_violated = rv, ins_missing_evidence = me,
          ins_suggestion = su\<rparr>))))"

definition NurseHandover_kw :: "pydict \<Rightarrow> error + NurseHandover" where
  "NurseHandover_kw kw =
     bind_res (kw_required kw ''summary_sbar'' v_str) (\<lambda>sb.
     bind_res (kw_required kw ''critical_alerts'' v_str_list) (\<lambda>ca.
     bind_res (kw_required kw ''pending_actions'' v_str_list) (\<lambda>pa.
     Inr \<lparr>nh_summary_sbar = sb, nh_critical_alerts = ca, nh_pending_actions = pa\<rparr>)))"

definition PatientSummary_kw :: "pydict \<Rightarrow> error + PatientSummary" where
  "PatientSummary_kw kw =
     bind_res (kw_required kw ''translated_content'' v_str) (\<lambda>tc.
     bind_res (kw_required kw ''whatsapp_message'' v_str) (\<lambda>wm.
     Inr \<lparr>ps_translated_content = tc, ps_whatsapp_message = wm\<rparr>))"

definition PatientInfo_kw :: "pydict \<Rightarrow> error + PatientInfo" where
  "PatientInfo_kw kw =
     bind_res (kw_default kw ''name'' v_opt_str None) (\<lambda>n.
     bind_res (kw_default kw ''age'' v_opt_str None) (\<lambda>a.
     bind_res (kw_default kw ''gender'' v_opt_str None) (\<lambda>g.
     bind_res (kw_default kw ''bed_number'' v_opt_str None) (\<lambda>b.
     bind_res (kw_default kw ''admission_date'' v_opt_str None) (\<lambda>ad.
     Inr \<lparr>pi_name = n, pi_age = a, pi_gender = g, pi_bed_number = b,
          pi_admission_date = ad\<rparr>)))))"

section \<open>gemini_processor.py: the identifier of a task\<close>

text \<open>
  \<^verbatim>\<open>str(uuid.uuid4())[:8]\<close>. \<^verbatim>\<open>uuid4()\<close> reads 16 random bytes as a big-endian 128-bit
  integer, forces the variant bits (63, 62) to \<open>10\<close> and the version nibble (bits 79..76)
  to 4; \<^verbatim>\<open>str\<close> prints the 32 lower-case hex digits in groups 8-4-4-4-12 joined by
  hyphens. The random bytes are the argument.
\<close>

definition uuid4 :: "128 word \<Rightarrow> 128 word" where
  "uuid4 r =
     (((r AND NOT (push_bit 48 0xc000)) OR push_bit 48 0x8000)
        AND NOT (push_bit 64 0xf000)) OR push_bit 76 4"

definition hexdigit :: "nat \<Rightarrow> char" where
  "hexdigit n = ''0123456789abcdef'' ! n"

definition uuid_hex :: "128 word \<Rightarrow> string" where
  "uuid_hex u = map (\<lambda>i. hexdigit (unat (drop_bit (4 * (31 - i)) u AND 15))) [0..<32]"

definition uuid_str :: "128 word \<Rightarrow> string" where
  "uuid_str u =
     (let h = uuid_hex u
      in take 8 h @ ''-'' @ take 4 (drop 8 h) @ ''-'' @ take 4 (drop 12 h) @ ''-''
           @ take 4 (drop 16 h) @ ''-'' @ drop 20 h)"

definition fresh_task_id :: "128 word \<Rightarrow> string" where
  "fresh_task_id r = take 8 (uuid_str (uuid4 r))"

section \<open>gemini_processor.py: \<^verbatim>\<open>_parse_response\<close>\<close>

text \<open>
  The body of the loop over \<^verbatim>\<open>transcript_segments\<close>: the \<^verbatim>\<open>seg.get\<close> calls need a dict,
  \<^verbatim>\<open>Emotion(...)\<close> is evaluated among the keywords, then \<^verbatim>\<open>TranscriptSegment\<close> validates.
\<close>

definition segment_of :: "json \<Rightarrow> error + TranscriptSegment" where
  "segment_of seg =
     bind_res (as_dict seg) (\<lambda>d.
     bind_res (Emotion_of (dget d ''emotion'' (JStr ''neutral''))) (\<lambda>emo.
     bind_res (v_str (dget d ''speaker'' (JStr ''Unknown''))) (\<lambda>sp.
     bind_res (v_str (dget d ''timestamp'' (JStr ''00:00''))) (\<lambda>ts.
     bind_res (v_str (dget d ''content'' (JStr []))) (\<lambda>co.
     bind_res (v_str (dget d ''language'' (JStr ''Unknown''))) (\<lambda>la.
     bind_res (v_str (dget d ''language_code'' (JStr ''un''))) (\<lambda>lc.
     bind_res (v_opt_str (dget_none d ''translation'')) (\<lambda>tr.
     Inr \<lparr>seg_speaker = sp, seg_timestamp = ts, seg_content = co, seg_language = la,
          seg_language_code = lc, seg_translation = tr, seg_emotion = emo\<rparr>))))))))"

text \<open>\<^verbatim>\<open>[Model(**x) for x in v]\<close>.\<close>

definition model_list :: "(pydict \<Rightarrow> error + 'a) \<Rightarrow> json \<Rightarrow> error + 'a list" where
  "model_list model v =
     bind_res (py_iter v) (mapM_res (\<lambda>x. bind_res (as_kwargs x) model))"

text \<open>\<^verbatim>\<open>Model(**v) if v else None\<close>.\<close>

definition model_if_truthy :: "(pydict \<Rightarrow> error + 'a) \<Rightarrow> json \<Rightarrow> error + 'a option" where
  "model_if_truthy model v =
     (if truthy v then bind_res (bind_res (as_kwargs v) model) (\<lambda>m. Inr (Some m))
      else Inr None)"

text \<open>
  The documentation part. The keyword expressions are evaluated in the order written;
  the fields handed over raw (\<^verbatim>\<open>chief_complaints\<close>, \<^verbatim>\<open>procedures\<close>, \<^verbatim>\<open>instructions\<close>,
  \<^verbatim>\<open>follow_up\<close>, \<^verbatim>\<open>notes\<close>) are validated by \<^verbatim>\<open>MedicalDocumentation\<close> at the end.
\<close>

definition documentation_of :: "pydict \<Rightarrow> error + MedicalDocumentation" where
  "documentation_of result_data =
     bind_res (as_dict (dget result_data ''documentation'' (JObj []))) (\<lambda>doc_data.
     bind_res (as_dict (dget doc_data ''patient_info'' (JObj []))) (\<lambda>patient_info_data.
     bind_res (PatientInfo_kw
        [(''name'', dget_none patient_info_data ''name''),
         (''age'', dget_none patient_info_data ''age''),
         (''gender'', dget_none patient_info_data ''gender''),
         (''bed_number'', dget_none patient_info_data ''bed_number''),
         (''admission_date'', dget_none patient_info_data ''admission_date'')]) (\<lambda>pinfo.
     bind_res (model_list Symptom_kw (dget doc_data ''symptoms'' (JArr []))) (\<lambda>syms.
     bind_res (model_list VitalSign_kw (dget doc_data ''vital_signs'' (JArr []))) (\<lambda>vits.
     bind_res (model_list Diagnosis_kw (dget doc_data ''diagnoses'' (JArr []))) (\<lambda>dxs.
     bind_res (model_list Medication_kw (dget doc_data ''medications'' (JArr []))) (\<lambda>meds.
     bind_res (model_list InsuranceIssue_kw (dget doc_data ''insurance_audit'' (JArr []))) (\<lambda>audit.
     bind_res (model_if_truthy NurseHandover_kw (dget_none doc_data ''nurse_handover'')) (\<lambda>handover.
     bind_res (model_if_truthy PatientSummary_kw (dget_none doc_data ''patient_summary'')) (\<lambda>psum.
     bind_res (v_str_list (dget doc_data ''chief_complaints'' (JArr []))) (\<lambda>ccs.
     bind_res (v_str_list (dget doc_data ''procedures'' (JArr []))) (\<lambda>procs.
     bind_res (v_str_list (dget doc_data ''instructions'' (JArr []))) (\<lambda>instrs.
     bind_res (v_opt_str (dget_none doc_data ''follow_up'')) (\<lambda>fu.
     bind_res (v_opt_str (dget_none doc_data ''notes'')) (\<lambda>no.
     Inr \<lparr>doc_patient_info = pinfo, doc_chief_complaints = ccs, doc_symptoms = syms,
          doc_vital_signs = vits, doc_diagnoses = dxs, doc_medications = meds,
          doc_procedures = procs, doc_instructions = instrs, doc_follow_up = fu,
          doc_insurance_audit = audit, doc_nurse_handover = handover,
          doc_patient_summary = psum, doc_notes = no\<rparr>)))))))))))))))"

text \<open>
  The body of the loop over \<^verbatim>\<open>nurse_tasks\<close>. The default of \<^verbatim>\<open>task.get("task_id", ...)\<close> is
  an argument, so a UUID is drawn for every task, used or not; \<open>r\<close> is the random bytes
  of that draw.
\<close>

definition task_of :: "(string \<Rightarrow> int option) \<Rightarrow> 128 word \<Rightarrow> json \<Rightarrow> error + NurseTask" where
  "task_of int_of_str r task =
     bind_res (as_dict task) (\<lambda>d.
     bind_res (Priority_of (dget d ''priority'' (JStr ''MEDIUM''))) (\<lambda>prio.
     bind_res (model_if_truthy Medication_kw (dget_none d ''medication_details'')) (\<lambda>md.
     bind_res (TaskStatus_of (dget d ''status'' (JStr ''PENDING''))) (\<lambda>st.
     bind_res (v_str (dget d ''task_id'' (JStr (fresh_task_id r)))) (\<lambda>tid.
     bind_res (v_str (dget d ''description'' (JStr []))) (\<lambda>de.
     bind_res (v_str (dget d ''task_type'' (JStr ''other''))) (\<lambda>ty.
     bind_res (v_opt_str (dget_none d ''due_time'')) (\<lambda>dt.
     bind_res (v_opt_int int_of_str (dget_none d ''due_minutes'')) (\<lambda>dm.
     bind_res (v_opt_str (dget_none d ''patient_identifier'')) (\<lambda>pid.
     bind_res (v_opt_str (dget_none d ''notes'')) (\<lambda>no.
     Inr \<lparr>task_id = tid, task_description = de, task_priority = prio, task_type = ty,
          task_due_time = dt, task_due_minutes = dm, task_patient_identifier = pid,
          task_medication_details = md, task_status = st, task_notes = no\<rparr>)))))))))))"

text \<open>The loop: the \<open>n\<close>-th draw of the random source goes to the task at hand.\<close>

fun tasks_of ::
  "(string \<Rightarrow> int option) \<Rightarrow> (nat \<Rightarrow> 128 word) \<Rightarrow> nat \<Rightarrow> json list \<Rightarrow> error + NurseTask list" where
  "tasks_of int_of_str urandom n [] = Inr []"
| "tasks_of int_of_str urandom n (task # rest) =
     (case task_of int_of_str (urandom n) task of
        Inl e \<Rightarrow> Inl e
      | Inr t \<Rightarrow>
          (case tasks_of int_of_str urandom (Suc n) rest of
             Inl e \<Rightarrow> Inl e
           | Inr ts \<Rightarrow> Inr (t # ts)))"

definition parse_response ::
  "(string \<Rightarrow> int option) \<Rightarrow> (nat \<Rightarrow> 128 word) \<Rightarrow> json \<Rightarrow> real \<Rightarrow> error + ProcessingResult" where
  "parse_response int_of_str urandom result_data processing_time =
     bind_res (as_dict result_data) (\<lambda>rd.
     bind_res (py_iter (dget rd ''transcript_segments'' (JArr []))) (\<lambda>raw_segments.
     bind_res (mapM_res segment_of raw_segments) (\<lambda>segments.
     bind_res (documentation_of rd) (\<lambda>documentation.
     bind_res (py_iter (dget rd ''nurse_tasks'' (JArr []))) (\<lambda>raw_tasks.
     bind_res (tasks_of int_of_str urandom 0 raw_tasks) (\<lambda>tasks.
     bind_res (v_str (dget rd ''summary'' (JStr []))) (\<lambda>summary.
     Inr \<lparr>res_summary = summary, res_transcript_segments = segments,
          res_documentation = documentation, res_nurse_tasks = tasks,
          res_processing_time = Some processing_time\<rparr>)))))))"

section \<open>gemini_processor.py: the two entry points\<close>

text \<open>
  What lies outside the program is a record of outcomes: the environment variable, the
  local file, the client's calls (\<^verbatim>\<open>files.upload\<close>, \<^verbatim>\<open>files.get\<close> at the \<open>n\<close>-th poll,
  \<^verbatim>\<open>models.generate_content\<close> with the \<^verbatim>\<open>text\<close> of its response, \<^verbatim>\<open>files.delete\<close>), the JSON
  decoder, the elapsed time \<^verbatim>\<open>time.time() - start_time\<close> as the interpreter computes it,
  and the random bytes. The calls made to the collaborator and to the file system are
  recorded in a trace, in order.
\<close>

record remote_file =
  rf_name :: string
  rf_uri :: string
  rf_state :: "string option"

record world =
  getenv_api_key :: "string option"
  client_cached :: bool
  read_file :: "error option"
  files_upload :: "error + remote_file"
  files_get :: "nat \<Rightarrow> error + remote_file"
  generate_content :: "error + string option"
  files_delete :: "error option"
  json_loads :: "string \<Rightarrow> json option"
  elapsed :: real
  urandom :: "nat \<Rightarrow> 128 word"
  int_of_str :: "string \<Rightarrow> int option"
  write_temp :: "error option"
  unlink_temp :: "error option"

datatype event =
    FilesUpload
  | Sleep
  | FilesGet
  | GenerateContent
  | FilesDelete
  | Swallowed error
  | WriteTemp
  | UnlinkTemp

text \<open>
  \<^verbatim>\<open>get_client\<close>: the cached client when there is one, else a new one when the key is set
  and not empty, else ValueError.
\<close>

definition get_client :: "world \<Rightarrow> error option" where
  "get_client w =
     (if client_cached w then None
      else (case getenv_api_key w of
              None \<Rightarrow> Some ValueError
            | Some k \<Rightarrow> if k = [] then Some ValueError else None))"

text \<open>\<^verbatim>\<open>json.loads(response.text)\<close>: TypeError on \<^verbatim>\<open>None\<close>, a ValueError when it does not decode.\<close>

definition loads_text :: "world \<Rightarrow> string option \<Rightarrow> error + json" where
  "loads_text w text =
     (case text of
        None \<Rightarrow> Inl TypeError
      | Some s \<Rightarrow> (case json_loads w s of None \<Rightarrow> Inl ValueError | Some j \<Rightarrow> Inr j))"

definition process_youtube_url :: "world \<Rightarrow> (error + ProcessingResult) \<times> event list" where
  "process_youtube_url w =
     (case get_client w of
        Some e \<Rightarrow> (Inl e, [])
      | None \<Rightarrow>
          (case generate_content w of
             Inl e \<Rightarrow> (Inl e, [GenerateContent])
           | Inr text \<Rightarrow>
               (bind_res (loads_text w text) (\<lambda>result_data.
                  parse_response (int_of_str w) (urandom w) result_data (elapsed w)),
                [GenerateContent])))"

text \<open>
  The wait loop \<^verbatim>\<open>while uploaded_file.state.name == "PROCESSING"\<close>: it has no bound, so it
  is a partial function, and \<open>None\<close> is the run that polls forever. A file without a
  state raises AttributeError at \<^verbatim>\<open>.name\<close>.
\<close>

partial_function (option) wait_processed ::
  "(nat \<Rightarrow> error + remote_file) \<Rightarrow> nat \<Rightarrow> remote_file \<Rightarrow> event list
     \<Rightarrow> ((error + remote_file) \<times> event list) option" where
  "wait_processed get n uploaded_file tr =
     (case rf_state uploaded_file of
        None \<Rightarrow> Some (Inl AttributeError, tr)
      | Some s \<Rightarrow>
          if s = ''PROCESSING'' then
            (case get n of
               Inl e \<Rightarrow> Some (Inl e, tr @ [Sleep, FilesGet])
             | Inr f \<Rightarrow> wait_processed get (Suc n) f (tr @ [Sleep, FilesGet]))
          else Some (Inr uploaded_file, tr))"

text \<open>\<^verbatim>\<open>try: files.delete(...) except: pass\<close>.\<close>

definition cleanup_uploaded :: "world \<Rightarrow> event list" where
  "cleanup_uploaded w =
     (case files_delete w of None \<Rightarrow> [FilesDelete] | Some e \<Rightarrow> [FilesDelete, Swallowed e])"

definition process_audio_file ::
  "world \<Rightarrow> ((error + ProcessingResult) \<times> event list) option" where
  "process_audio_file w =
     (case read_file w of
        Some e \<Rightarrow> Some (Inl e, [])
      | None \<Rightarrow>
     (case get_client w of
        Some e \<Rightarrow> Some (Inl e, [])
      | None \<Rightarrow>
     (case files_upload w of
        Inl e \<Rightarrow> Some (Inl e, [FilesUpload])
      | Inr f0 \<Rightarrow>
     (case wait_processed (files_get w) 0 f0 [FilesUpload] of
        None \<Rightarrow> None
      | Some (Inl e, tr) \<Rightarrow> Some (Inl e, tr)
      | Some (Inr f, tr) \<Rightarrow>
          if rf_state f = Some ''FAILED'' then Some (Inl ProcessingFailed, tr)
          else
            (case generate_content w of
               Inl e \<Rightarrow> Some (Inl e, tr @ [GenerateContent])
             | Inr text \<Rightarrow>
                 Some (bind_res (loads_text w text) (\<lambda>result_data.
                         parse_response (int_of_str w) (urandom w) result_data (elapsed w)),
                       tr @ [GenerateContent] @ cleanup_uploaded w))))))"

section \<open>main.py: \<^verbatim>\<open>process_audio\<close>\<close>

text \<open>
  \<^verbatim>\<open>Path(name).suffix.lower().lstrip(".")\<close> for a POSIX path: the name is the last
  component that is neither empty nor \<^verbatim>\<open>.\<close>; the suffix starts at the name's last dot
  when that dot is neither its first nor its last character. Letters outside ASCII are
  left as they are by \<open>lower\<close>: none of them lowers to a letter of the five
  extensions.
\<close>

fun split_sep :: "char \<Rightarrow> string \<Rightarrow> string list" where
  "split_sep sep [] = [[]]"
| "split_sep sep (c # cs) =
     (case split_sep sep cs of
        [] \<Rightarrow> [[c]]
      | p # ps \<Rightarrow> if c = sep then [] # p # ps else (c # p) # ps)"

definition path_name :: "string \<Rightarrow> string" where
  "path_name s =
     (case filter (\<lambda>p. p \<noteq> [] \<and> p \<noteq> ''.'') (split_sep CHR ''/'' s) of
        [] \<Rightarrow> []
      | ps \<Rightarrow> last ps)"

fun rfind_dot :: "string \<Rightarrow> nat option" where
  "rfind_dot [] = None"
| "rfind_dot (c # cs) =
     (case rfind_dot cs of
        Some i \<Rightarrow> Some (Suc i)
      | None \<Rightarrow> if c = CHR ''.'' then Some 0 else None)"

definition path_suffix :: "string \<Rightarrow> string" where
  "path_suffix s =
     (let name = path_name s
      in case rfind_dot name of
           None \<Rightarrow> []
         | Some i \<Rightarrow> if 0 < i \<and> i < length name - 1 then drop i name else [])"

definition lower_char :: "char \<Rightarrow> char" where
  "lower_char c =
     (case map_of (zip ''ABCDEFGHIJKLMNOPQRSTUVWXYZ'' ''abcdefghijklmnopqrstuvwxyz'') c of
        None \<Rightarrow> c
      | Some l \<Rightarrow> l)"

definition lower :: "string \<Rightarrow> string" where
  "lower s = map lower_char s"

definition lstrip_dot :: "string \<Rightarrow> string" where
  "lstrip_dot s = dropWhile (\<lambda>c. c = CHR ''.'') s"

definition allowed_types :: "(string \<times> string) list" where
  "allowed_types =
     [(''audio/mpeg'', ''mp3''), (''audio/mp3'', ''mp3''), (''audio/wav'', ''wav''),
      (''audio/x-wav'', ''wav''), (''audio/webm'', ''webm''), (''audio/ogg'', ''ogg''),
      (''audio/mp4'', ''m4a''), (''audio/x-m4a'', ''m4a''), (''video/webm'', ''webm'')]"

definition allowed_exts :: "string list" where
  "allowed_exts = [''mp3'', ''wav'', ''webm'', ''ogg'', ''m4a'']"

record upload_file =
  content_type :: "string option"
  filename :: "string option"

datatype response = Ok ProcessingResult | HTTPException nat

text \<open>\<^verbatim>\<open>x or default\<close> on an optional string.\<close>

definition or_else :: "string option \<Rightarrow> string \<Rightarrow> string" where
  "or_else x dflt = (case x of None \<Rightarrow> dflt | Some s \<Rightarrow> if s = [] then dflt else s)"

definition api_key_set :: "world \<Rightarrow> bool" where
  "api_key_set w = (case getenv_api_key w of None \<Rightarrow> False | Some k \<Rightarrow> k \<noteq> [])"

definition upload_ext :: "upload_file \<Rightarrow> string" where
  "upload_ext file = lstrip_dot (lower (path_suffix (or_else (filename file) [])))"

definition process_audio :: "world \<Rightarrow> upload_file \<Rightarrow> (response \<times> event list) option" where
  "process_audio w file =
     (if \<not> api_key_set w then Some (HTTPException 500, [])
      else
        let ct = or_else (content_type file) ''audio/mpeg''
        in if map_of allowed_types ct = None \<and> upload_ext file \<notin> set allowed_exts
           then Some (HTTPException 400, [])
           else
             (case write_temp w of
                Some e \<Rightarrow> Some (HTTPException 500, [WriteTemp])
              | None \<Rightarrow>
                  (case process_audio_file w of
                     None \<Rightarrow> None
                   | Some (Inl e, tr) \<Rightarrow> Some (HTTPException 500, WriteTemp # tr)
                   | Some (Inr result, tr) \<Rightarrow>
                       Some (Ok result,
                             WriteTemp # tr @
                               (case unlink_temp w of
                                  None \<Rightarrow> [UnlinkTemp]
                                | Some e \<Rightarrow> [UnlinkTemp, Swallowed e])))))"

section \<open>Concrete inputs\<close>

text \<open>
  The result of normalizing the empty object, and a world in which every call succeeds
  at once and the response decodes to the empty object.
\<close>

definition empty_documentation :: MedicalDocumentation where
  "empty_documentation =
     \<lparr>doc_patient_info =
        \<lparr>pi_name = None, pi_age = None, pi_gender = None, pi_bed_number = None,
         pi_admission_date = None\<rparr>,
      doc_chief_complaints = [], doc_symptoms = [], doc_vital_signs = [],
      doc_diagnoses = [], doc_medications = [], doc_procedures = [],
      doc_instructions = [], doc_follow_up = None, doc_insurance_audit = [],
      doc_nurse_handover = None, doc_patient_summary = None, doc_notes = None\<rparr>"

definition empty_result :: "real \<Rightarrow> ProcessingResult" where
  "empty_result t =
     \<lparr>res_summary = [], res_transcript_segments = [],
      res_documentation = empty_documentation, res_nurse_tasks = [],
      res_processing_time = Some t\<rparr>"

definition active_file :: remote_file where
  "active_file = \<lparr>rf_name = ''files/a1'', rf_uri = ''uri/a1'', rf_state = Some ''ACTIVE''\<rparr>"

definition quiet_world :: world where
  "quiet_world =
     \<lparr>getenv_api_key = Some ''key'', client_cached = False, read_file = None,
      files_upload = Inr active_file, files_get = (\<lambda>n. Inr active_file),
      generate_content = Inr (Some ''{}''), files_delete = None,
      json_loads = (\<lambda>s. if s = ''{}'' then Some (JObj []) else None),
      elapsed = 3, urandom = (\<lambda>n. 0), int_of_str = (\<lambda>s. None),
      write_temp = None, unlink_temp = None\<rparr>"

definition holds_str :: "pydict \<Rightarrow> string \<Rightarrow> string \<Rightarrow> bool" where
  "holds_str kw k s = (map_of kw k = Some (JStr s))"

definition holds_strs :: "pydict \<Rightarrow> string \<Rightarrow> string list \<Rightarrow> bool" where
  "holds_strs kw k xs = (map_of kw k = Some (JArr (map JStr xs)))"

definition absent_or_null :: "pydict \<Rightarrow> string \<Rightarrow> bool" where
  "absent_or_null d k = (map_of d k = None \<or> map_of d k = Some JNull)"




definition ward_medication :: json where
  "ward_medication =
     JObj [(''drug_name'', JStr ''Paracetamol''), (''dosage'', JStr ''500mg''),
           (''frequency'', JStr ''twice daily'')]"

definition ward_segments :: "json list" where
  "ward_segments =
     [JObj [(''speaker'', JStr ''Doctor''), (''emotion'', JStr ''calm'')], JObj []]"

definition ward_doc :: pydict where
  "ward_doc =
     [(''medications'', JArr [ward_medication]),
      (''insurance_audit'',
         JArr [JObj [(''severity'', JStr ''HIGH''), (''rule_violated'', JStr ''R1''),
                     (''missing_evidence'', JStr ''E1''), (''suggestion'', JStr ''S1'')]]),
      (''nurse_handover'',
         JObj [(''summary_sbar'', JStr ''SBAR''), (''critical_alerts'', JArr [JStr ''A1'']),
               (''pending_actions'', JArr [])]),
      (''patient_summary'',
         JObj [(''translated_content'', JStr ''TC''), (''whatsapp_message'', JStr ''WM'')])]"

definition ward_tasks :: "json list" where
  "ward_tasks =
     [JObj [(''description'', JStr ''Give paracetamol''), (''priority'', JStr ''HIGH''),
            (''task_type'', JStr ''medication''), (''status'', JStr ''IN_PROGRESS''),
            (''medication_details'', ward_medication)],
      JObj [(''task_id'', JStr ''t-7'')]]"

definition ward_fields :: pydict where
  "ward_fields =
     [(''summary'', JStr ''Ward round''), (''transcript_segments'', JArr ward_segments),
      (''documentation'', JObj ward_doc), (''nurse_tasks'', JArr ward_tasks)]"

definition ward_med :: Medication where
  "ward_med =
     \<lparr>med_drug_name = ''Paracetamol'', med_dosage = ''500mg'',
      med_frequency = ''twice daily'', med_route = Some ''oral'', med_duration = None,
      med_instructions = None\<rparr>"

definition ward_result :: "real \<Rightarrow> ProcessingResult" where
  "ward_result t =
     \<lparr>res_summary = ''Ward round'',
      res_transcript_segments =
        [\<lparr>seg_speaker = ''Doctor'', seg_timestamp = ''00:00'', seg_content = [],
          seg_language = ''Unknown'', seg_language_code = ''un'', seg_translation = None,
          seg_emotion = CALM\<rparr>,
         \<lparr>seg_speaker = ''Unknown'', seg_timestamp = ''00:00'', seg_content = [],
          seg_language = ''Unknown'', seg_language_code = ''un'', seg_translation = None,
          seg_emotion = NEUTRAL\<rparr>],
      res_documentation =
        empty_documentation
          \<lparr>doc_medications := [ward_med],
           doc_insurance_audit :=
             [\<lparr>ins_severity = ''HIGH'', ins_rule_violated = ''R1'',
               ins_missing_evidence = ''E1'', ins_suggestion = ''S1''\<rparr>],
           doc_nurse_handover :=
             Some \<lparr>nh_summary_sbar = ''SBAR'', nh_critical_alerts = [''A1''],
                   nh_pending_actions = []\<rparr>,
           doc_patient_summary :=
             Some \<lparr>ps_translated_content = ''TC'', ps_whatsapp_message = ''WM''\<rparr>\<rparr>,
      res_nurse_tasks =
        [\<lparr>task_id = ''00000000'', task_description = ''Give paracetamol'',
          task_priority = HIGH, task_type = ''medication'', task_due_time = None,
          task_due_minutes = None, task_patient_identifier = None,
          task_medication_details = Some ward_med, task_status = IN_PROGRESS,
          task_notes = None\<rparr>,
         \<lparr>task_id = ''t-7'', task_description = [], task_priority = MEDIUM,
          task_type = ''other'', task_due_time = None, task_due_minutes = None,
          task_patient_identifier = None, task_medication_details = None,
          task_status = PENDING, task_notes = None\<rparr>],
      res_processing_time = Some t\<rparr>"

definition handover_of :: "pydict \<Rightarrow> NurseHandover \<Rightarrow> bool" where
  "handover_of kw h \<longleftrightarrow>
     holds_str kw ''summary_sbar'' (nh_summary_sbar h) \<and>
     holds_strs kw ''critical_alerts'' (nh_critical_alerts h) \<and>
     holds_strs kw ''pending_actions'' (nh_pending_actions h)"

definition patient_summary_of :: "pydict \<Rightarrow> PatientSummary \<Rightarrow> bool" where
  "patient_summary_of kw p \<longleftrightarrow>
     holds_str kw ''translated_content'' (ps_translated_content p) \<and>
     holds_str kw ''whatsapp_message'' (ps_whatsapp_message p)"

definition insurance_issue_of :: "pydict \<Rightarrow> InsuranceIssue \<Rightarrow> bool" where
  "insurance_issue_of kw x \<longleftrightarrow>
     holds_str kw ''severity'' (ins_severity x) \<and>
     holds_str kw ''rule_violated'' (ins_rule_violated x) \<and>
     holds_str kw ''missing_evidence'' (ins_missing_evidence x) \<and>
     holds_str kw ''suggestion'' (ins_suggestion x)"

definition medication_of :: "pydict \<Rightarrow> Medication \<Rightarrow> bool" where
  "medication_of kw m \<longleftrightarrow>
     holds_str kw ''drug_name'' (med_drug_name m) \<and>
     holds_str kw ''dosage'' (med_dosage m) \<and>
     holds_str kw ''frequency'' (med_frequency m)"

definition Emotion_values :: "string list" where
  "Emotion_values = [''happy'', ''sad'', ''angry'', ''neutral'', ''concerned'', ''calm'']"

definition Priority_values :: "string list" where
  "Priority_values = [''HIGH'', ''MEDIUM'', ''LOW'']"

definition TaskStatus_values :: "string list" where
  "TaskStatus_values = [''PENDING'', ''IN_PROGRESS'', ''COMPLETED'']"

text \<open>A raw enum field against the member in the result: absent with the default, or
  present and exactly the member's value.\<close>

definition absent_default_or_exact :: "pydict \<Rightarrow> string \<Rightarrow> string \<Rightarrow> string \<Rightarrow> bool" where
  "absent_default_or_exact d k dflt held =
     (case map_of d k of None \<Rightarrow> held = dflt | Some v \<Rightarrow> v = JStr held)"

definition ward_result_with :: "string \<Rightarrow> real \<Rightarrow> ProcessingResult" where
  "ward_result_with tid t =
     (ward_result t)
       \<lparr>res_nurse_tasks :=
          [(res_nurse_tasks (ward_result t) ! 0)\<lparr>task_id := tid\<rparr>,
           res_nurse_tasks (ward_result t) ! 1]\<rparr>"

definition reads_no_int :: "string \<Rightarrow> int option" where
  "reads_no_int s = None"

definition zero_draws :: "nat \<Rightarrow> 128 word" where
  "zero_draws n = 0"

definition low_draws :: "nat \<Rightarrow> 128 word" where
  "low_draws n = of_nat (Suc n)"

definition task_ids_of :: "error + ProcessingResult \<Rightarrow> error + string list" where
  "task_ids_of res = map_sum id (map task_id \<circ> res_nurse_tasks) res"

definition repeated_id_input :: json where
  "repeated_id_input =
     JObj [(''nurse_tasks'',
            JArr [JObj [], JObj [(''task_id'', JStr ''dup'')],
                  JObj [(''task_id'', JStr ''dup'')]])]"

definition two_bare_tasks_input :: json where
  "two_bare_tasks_input = JObj [(''nurse_tasks'', JArr [JObj [], JObj []])]"

definition hex_chars :: "char set" where
  "hex_chars = set ''0123456789abcdef''"

definition failed_generation_world :: world where
  "failed_generation_world = quiet_world\<lparr>generate_content := Inl CollaboratorError\<rparr>"

definition failed_state_world :: world where
  "failed_state_world =
     quiet_world\<lparr>files_upload := Inr (active_file\<lparr>rf_state := Some ''FAILED''\<rparr>)\<rparr>"

definition failed_delete_world :: world where
  "failed_delete_world = quiet_world\<lparr>files_delete := Some CollaboratorError\<rparr>"

text \<open>The allow-list as the specification words it (it has no \<^verbatim>\<open>audio/mp3\<close>).\<close>

definition spec_allow_list :: "string list" where
  "spec_allow_list =
     [''audio/mpeg'', ''audio/wav'', ''audio/x-wav'', ''audio/webm'', ''audio/ogg'',
      ''audio/mp4'', ''audio/x-m4a'', ''video/webm'']"

definition pdf_upload :: upload_file where
  "pdf_upload = \<lparr>content_type = Some ''application/pdf'', filename = Some ''report.pdf''\<rparr>"

definition mp3_typed_upload :: upload_file where
  "mp3_typed_upload = \<lparr>content_type = Some ''audio/mp3'', filename = Some ''notes.txt''\<rparr>"

definition mp3_named_upload :: upload_file where
  "mp3_named_upload =
     \<lparr>content_type = Some ''application/octet-stream'', filename = Some ''ward/Round.MP3''\<rparr>"

definition keyless_world :: world where
  "keyless_world = quiet_world\<lparr>getenv_api_key := None\<rparr>"

definition empty_handover_input :: json where
  "empty_handover_input = JObj [(''documentation'', JObj [(''nurse_handover'', JObj [])])]"

definition partial_handover_input :: json where
  "partial_handover_input =
     JObj [(''documentation'',
            JObj [(''nurse_handover'', JObj [(''summary_sbar'', JStr ''S'')])])]"

definition null_audit_input :: json where
  "null_audit_input = JObj [(''documentation'', JObj [(''insurance_audit'', JNull)])]"























section \<open>Properties of \<^verbatim>\<open>_parse_response\<close>\<close>

subsection \<open>When a step returns\<close>

lemma bind_res_Inr: "bind_res m f = Inr y \<longleftrightarrow> (\<exists>x. m = Inr x \<and> f x = Inr y)"
  by (cases m) (simp_all add: bind_res_def)

lemma bind_res_Inl: "bind_res m f = Inl e \<longleftrightarrow> m = Inl e \<or> (\<exists>x. m = Inr x \<and> f x = Inl e)"
  by (cases m) (simp_all add: bind_res_def)

lemma mapM_res_Inr:
  "mapM_res f xs = Inr ys \<longleftrightarrow> list_all2 (\<lambda>x y. f x = Inr y) xs ys"
proof (induction xs arbitrary: ys)
  case Nil
  show ?case by auto
next
  case (Cons x xs)
  show ?case
  proof (cases "f x")
    case (Inl e)
    then show ?thesis by (auto simp: list_all2_Cons1)
  next
    case fx: (Inr y)
    show ?thesis
    proof (cases "mapM_res f xs")
      case (Inl e)
      then have "\<not> list_all2 (\<lambda>x y. f x = Inr y) xs zs" for zs
        using Cons.IH[of zs] by simp
      then show ?thesis using fx Inl by (auto simp: list_all2_Cons1)
    next
      case (Inr ys')
      then have "list_all2 (\<lambda>x y. f x = Inr y) xs zs \<longleftrightarrow> zs = ys'" for zs
        using Cons.IH[of zs] by auto
      then show ?thesis using fx Inr by (auto simp: list_all2_Cons1)
    qed
  qed
qed

lemma mapM_res_nth:
  assumes "mapM_res f xs = Inr ys"
  shows "length ys = length xs"
    and "i < length xs \<Longrightarrow> f (xs ! i) = Inr (ys ! i)"
  using assms by (auto simp: mapM_res_Inr dest: list_all2_lengthD list_all2_nthD)

lemma tasks_of_Inr:
  "tasks_of ios rnd n ts = Inr ys \<longleftrightarrow>
     list_all2 (\<lambda>(i, t) y. task_of ios (rnd i) t = Inr y) (zip [n..<n + length ts] ts) ys"
proof (induction ts arbitrary: n ys)
  case Nil
  show ?case by auto
next
  case (Cons t ts)
  have upt: "[n..<n + length (t # ts)] = n # [Suc n..<Suc n + length ts]"
    by (simp add: upt_rec)
  show ?case
  proof (cases "task_of ios (rnd n) t")
    case (Inl e)
    then show ?thesis unfolding upt by (auto simp: list_all2_Cons1)
  next
    case fx: (Inr y)
    show ?thesis
    proof (cases "tasks_of ios rnd (Suc n) ts")
      case (Inl e)
      then have "\<not> list_all2 (\<lambda>(i, t) y. task_of ios (rnd i) t = Inr y)
                    (zip [Suc n..<Suc n + length ts] ts) zs" for zs
        using Cons.IH[of "Suc n" zs] by simp
      then show ?thesis using fx Inl unfolding upt by (auto simp: list_all2_Cons1)
    next
      case (Inr ys')
      then have "list_all2 (\<lambda>(i, t) y. task_of ios (rnd i) t = Inr y)
                    (zip [Suc n..<Suc n + length ts] ts) zs \<longleftrightarrow> zs = ys'" for zs
        using Cons.IH[of "Suc n" zs] by auto
      then show ?thesis using fx Inr unfolding upt by (auto simp: list_all2_Cons1)
    qed
  qed
qed

lemma tasks_of_nth:
  assumes "tasks_of ios rnd 0 ts = Inr ys"
  shows "length ys = length ts"
    and "i < length ts \<Longrightarrow> task_of ios (rnd i) (ts ! i) = Inr (ys ! i)"
proof -
  have l: "list_all2 (\<lambda>(i, t) y. task_of ios (rnd i) t = Inr y) (zip [0..<length ts] ts) ys"
    using assms by (simp add: tasks_of_Inr)
  then show len: "length ys = length ts"
    by (auto dest: list_all2_lengthD)
  show "task_of ios (rnd i) (ts ! i) = Inr (ys ! i)" if "i < length ts"
    using list_all2_nthD[OF l, of i] that by simp
qed

lemma v_str_Inr: "v_str j = Inr s \<longleftrightarrow> j = JStr s"
  by (cases j) auto

lemma v_opt_str_Inr:
  "v_opt_str j = Inr s \<longleftrightarrow> (j = JNull \<and> s = None) \<or> (\<exists>x. j = JStr x \<and> s = Some x)"
  by (cases j) auto

lemma v_str_list_Inr: "v_str_list j = Inr xs \<longleftrightarrow> j = JArr (map JStr xs)"
proof (cases j)
  case (JArr js)
  have "list_all2 (\<lambda>x y. x = JStr y) js xs \<longleftrightarrow> js = map JStr xs"
    by (induction js arbitrary: xs) (auto simp: list_all2_Cons1)
  then show ?thesis using JArr by (simp add: mapM_res_Inr v_str_Inr)
qed auto

lemma as_dict_Inr: "as_dict j = Inr d \<longleftrightarrow> j = JObj d"
  by (cases j) auto

lemma as_kwargs_Inr: "as_kwargs j = Inr d \<longleftrightarrow> j = JObj d"
  by (cases j) auto

lemma model_if_truthy_Inr:
  "model_if_truthy model v = Inr r \<longleftrightarrow>
     (\<not> truthy v \<and> r = None) \<or>
     (\<exists>kw m. v = JObj kw \<and> kw \<noteq> [] \<and> model kw = Inr m \<and> r = Some m)"
  by (cases v) (auto simp: model_if_truthy_def bind_res_Inr)

lemma model_list_Inr:
  "model_list model v = Inr ms \<longleftrightarrow>
     (\<exists>xs. py_iter v = Inr xs \<and>
        list_all2 (\<lambda>x m. \<exists>kw. x = JObj kw \<and> model kw = Inr m) xs ms)"
  by (simp add: model_list_def bind_res_Inr mapM_res_Inr as_kwargs_Inr)

lemma parse_response_Inr:
  "parse_response ios rnd d t = Inr r \<longleftrightarrow>
     (\<exists>rd raw_segments segments documentation raw_tasks tasks summary.
        d = JObj rd \<and>
        py_iter (dget rd ''transcript_segments'' (JArr [])) = Inr raw_segments \<and>
        mapM_res segment_of raw_segments = Inr segments \<and>
        documentation_of rd = Inr documentation \<and>
        py_iter (dget rd ''nurse_tasks'' (JArr [])) = Inr raw_tasks \<and>
        tasks_of ios rnd 0 raw_tasks = Inr tasks \<and>
        dget rd ''summary'' (JStr []) = JStr summary \<and>
        r = \<lparr>res_summary = summary, res_transcript_segments = segments,
          res_documentation = documentation, res_nurse_tasks = tasks,
          res_processing_time = Some t\<rparr>)"
  unfolding parse_response_def bind_res_Inr as_dict_Inr v_str_Inr by blast

lemma documentation_of_Inr:
  "documentation_of rd = Inr doc \<Longrightarrow>
     \<exists>dd. dget rd ''documentation'' (JObj []) = JObj dd \<and>
       model_list Medication_kw (dget dd ''medications'' (JArr [])) = Inr (doc_medications doc) \<and>
       model_list InsuranceIssue_kw (dget dd ''insurance_audit'' (JArr []))
         = Inr (doc_insurance_audit doc) \<and>
       model_if_truthy NurseHandover_kw (dget_none dd ''nurse_handover'')
         = Inr (doc_nurse_handover doc) \<and>
       model_if_truthy PatientSummary_kw (dget_none dd ''patient_summary'')
         = Inr (doc_patient_summary doc)"
  unfolding documentation_of_def bind_res_Inr as_dict_Inr by force

lemma task_of_Inr:
  "task_of ios r task = Inr t \<Longrightarrow>
     \<exists>d. task = JObj d \<and>
       Priority_of (dget d ''priority'' (JStr ''MEDIUM'')) = Inr (task_priority t) \<and>
       model_if_truthy Medication_kw (dget_none d ''medication_details'')
         = Inr (task_medication_details t) \<and>
       TaskStatus_of (dget d ''status'' (JStr ''PENDING'')) = Inr (task_status t) \<and>
       dget d ''task_id'' (JStr (fresh_task_id r)) = JStr (task_id t)"
  unfolding task_of_def bind_res_Inr as_dict_Inr v_str_Inr by force

lemma parse_empty_object:
  "parse_response ios rnd (JObj []) t = Inr (empty_result t)"
  by (simp add: parse_response_def documentation_of_def bind_res_def dget_def dget_none_def
      PatientInfo_kw_def kw_default_def model_list_def model_if_truthy_def
      empty_result_def empty_documentation_def)

lemma youtube_quiet_world:
  "process_youtube_url quiet_world = (Inr (empty_result 3), [GenerateContent])"
  by (simp add: process_youtube_url_def quiet_world_def get_client_def loads_text_def
      bind_res_def parse_empty_object)

lemma audio_file_quiet_world:
  "process_audio_file quiet_world
     = Some (Inr (empty_result 3), [FilesUpload, GenerateContent, FilesDelete])"
  by (simp add: process_audio_file_def quiet_world_def get_client_def loads_text_def
      bind_res_def parse_empty_object wait_processed.simps active_file_def
      cleanup_uploaded_def)

subsection \<open>The elapsed time\<close>

text \<open>
  C9. Every result that \<^verbatim>\<open>_parse_response\<close> builds carries the elapsed seconds it was
  given, never \<^verbatim>\<open>None\<close>; and both entry points hand it the elapsed time they measured, so
  a result of \<^verbatim>\<open>process_youtube_url\<close> or \<^verbatim>\<open>process_audio_file\<close> carries that time.
\<close>

theorem processing_time_is_given:
  "(parse_response ios rnd d t = Inr r \<longrightarrow> res_processing_time r = Some t) \<and>
   (fst (process_youtube_url w) = Inr r1 \<longrightarrow> res_processing_time r1 = Some (elapsed w)) \<and>
   (process_audio_file w = Some (Inr r2, tr) \<longrightarrow> res_processing_time r2 = Some (elapsed w))"
proof (intro conjI impI)
  show "res_processing_time r = Some t" if "parse_response ios rnd d t = Inr r"
    using that by (auto simp: parse_response_Inr)
  show "res_processing_time r1 = Some (elapsed w)" if "fst (process_youtube_url w) = Inr r1"
    using that
    by (auto simp: process_youtube_url_def bind_res_Inr parse_response_Inr
        split: option.splits sum.splits)
  show "res_processing_time r2 = Some (elapsed w)"
    if "process_audio_file w = Some (Inr r2, tr)"
    using that
    by (auto simp: process_audio_file_def bind_res_Inr parse_response_Inr
        split: option.splits sum.splits if_splits prod.splits)
qed

theorem processing_time_is_given_witness:
  "parse_response (\<lambda>s. None) (\<lambda>n. 0) (JObj []) 2 = Inr (empty_result 2) \<and>
   res_processing_time (empty_result 2) = Some 2 \<and>
   fst (process_youtube_url quiet_world) = Inr (empty_result 3) \<and>
   process_audio_file quiet_world
     = Some (Inr (empty_result 3), [FilesUpload, GenerateContent, FilesDelete]) \<and>
   res_processing_time (empty_result 3) = Some (elapsed quiet_world)"
proof -
  have h1: "parse_response (\<lambda>s. None) (\<lambda>n. 0) (JObj []) 2 = Inr (empty_result 2)"
    by (rule parse_empty_object)
  have h2: "fst (process_youtube_url quiet_world) = Inr (empty_result 3)"
    by (simp add: youtube_quiet_world)
  have h3: "process_audio_file quiet_world
     = Some (Inr (empty_result 3), [FilesUpload, GenerateContent, FilesDelete])"
    by (rule audio_file_quiet_world)
  show ?thesis
    using h1 h2 h3
      processing_time_is_given
        [of "\<lambda>s. None" "\<lambda>n. 0" "JObj []" 2 "empty_result 2" quiet_world "empty_result 3"
            "empty_result 3" "[FilesUpload, GenerateContent, FilesDelete]"]
    by simp
qed

lemmas parse_eval =
  parse_response_def documentation_of_def segment_of_def task_of_def bind_res_def dget_def
  dget_none_def PatientInfo_kw_def Symptom_kw_def Diagnosis_kw_def Medication_kw_def
  VitalSign_kw_def InsuranceIssue_kw_def NurseHandover_kw_def PatientSummary_kw_def
  kw_default_def kw_required_def model_list_def model_if_truthy_def

lemma fresh_task_id_0: "fresh_task_id 0 = ''00000000''"
  by (simp add: fresh_task_id_def uuid_str_def uuid4_def uuid_hex_def hexdigit_def upt_rec)



subsection \<open>Empty objects\<close>



lemmas ward_defs =
  ward_fields_def ward_segments_def ward_doc_def ward_tasks_def ward_medication_def
  ward_result_def ward_med_def empty_documentation_def

lemma parse_ward_input:
  "parse_response ios (\<lambda>n. 0) (JObj ward_fields) t = Inr (ward_result t)"
  by (simp add: parse_eval ward_defs fresh_task_id_0)

lemma ward_nurse_tasks:
  "py_iter (dget ward_fields ''nurse_tasks'' (JArr [])) = Inr ward_tasks"
  by (simp add: dget_def ward_fields_def)

lemma ward_segments:
  "py_iter (dget ward_fields ''transcript_segments'' (JArr [])) = Inr ward_segments"
  by (simp add: dget_def ward_fields_def)

lemma Medication_kw_Inr:
  "Medication_kw kw = Inr m \<Longrightarrow>
     holds_str kw ''drug_name'' (med_drug_name m) \<and> holds_str kw ''dosage'' (med_dosage m) \<and>
     holds_str kw ''frequency'' (med_frequency m) \<and>
     (map_of kw ''route'' = None \<longrightarrow> med_route m = Some ''oral'')"
  unfolding Medication_kw_def bind_res_Inr kw_required_def kw_default_def holds_str_def
  by (auto split: option.splits simp: v_str_Inr)

lemma InsuranceIssue_kw_Inr:
  "InsuranceIssue_kw kw = Inr x \<Longrightarrow>
     holds_str kw ''severity'' (ins_severity x) \<and>
     holds_str kw ''rule_violated'' (ins_rule_violated x) \<and>
     holds_str kw ''missing_evidence'' (ins_missing_evidence x) \<and>
     holds_str kw ''suggestion'' (ins_suggestion x)"
  unfolding InsuranceIssue_kw_def bind_res_Inr kw_required_def holds_str_def
  by (auto split: option.splits simp: v_str_Inr)

lemma NurseHandover_kw_Inr:
  "NurseHandover_kw kw = Inr h \<Longrightarrow>
     holds_str kw ''summary_sbar'' (nh_summary_sbar h) \<and>
     holds_strs kw ''critical_alerts'' (nh_critical_alerts h) \<and>
     holds_strs kw ''pending_actions'' (nh_pending_actions h)"
  unfolding NurseHandover_kw_def bind_res_Inr kw_required_def holds_str_def holds_strs_def
  by (auto split: option.splits simp: v_str_Inr v_str_list_Inr)

lemma PatientSummary_kw_Inr:
  "PatientSummary_kw kw = Inr p \<Longrightarrow>
     holds_str kw ''translated_content'' (ps_translated_content p) \<and>
     holds_str kw ''whatsapp_message'' (ps_whatsapp_message p)"
  unfolding PatientSummary_kw_def bind_res_Inr kw_required_def holds_str_def
  by (auto split: option.splits simp: v_str_Inr)

lemma model_list_nth:
  assumes "model_list model v = Inr ms"
  shows "\<exists>xs. py_iter v = Inr xs \<and> length ms = length xs \<and>
    (\<forall>i < length xs. \<exists>kw. xs ! i = JObj kw \<and> model kw = Inr (ms ! i))"
proof -
  from assms obtain xs where
    it: "py_iter v = Inr xs" and
    l: "list_all2 (\<lambda>x m. \<exists>kw. x = JObj kw \<and> model kw = Inr m) xs ms"
    by (auto simp: model_list_Inr)
  show ?thesis
    using it list_all2_lengthD[OF l] list_all2_nthD[OF l] by auto
qed

lemma dget_none_cases:
  "dget_none d k = JObj kw \<Longrightarrow> map_of d k = Some (JObj kw)"
  "absent_or_null d k \<Longrightarrow> dget_none d k = JNull"
  by (auto simp: dget_none_def dget_def absent_or_null_def split: option.splits)

lemma model_if_truthy_cases:
  assumes "model_if_truthy model (dget_none d k) = Inr r"
  shows "absent_or_null d k \<longrightarrow> r = None"
    and "\<forall>kw. map_of d k = Some (JObj kw) \<and> kw \<noteq> [] \<longrightarrow> (\<exists>m. r = Some m \<and> model kw = Inr m)"
    and "\<forall>m. r = Some m \<longrightarrow> (\<exists>kw. map_of d k = Some (JObj kw) \<and> kw \<noteq> [] \<and> model kw = Inr m)"
proof -
  show "absent_or_null d k \<longrightarrow> r = None"
    using assms by (auto simp: model_if_truthy_Inr dget_none_cases)
  show "\<forall>kw. map_of d k = Some (JObj kw) \<and> kw \<noteq> [] \<longrightarrow> (\<exists>m. r = Some m \<and> model kw = Inr m)"
    using assms by (auto simp: model_if_truthy_Inr dget_none_def dget_def)
  show "\<forall>m. r = Some m \<longrightarrow> (\<exists>kw. map_of d k = Some (JObj kw) \<and> kw \<noteq> [] \<and> model kw = Inr m)"
    using assms by (auto simp: model_if_truthy_Inr dest: dget_none_cases(1))
qed

subsection \<open>The route of a medication\<close>

text \<open>
  C8. Whenever a raw medication object lacks the key \<^verbatim>\<open>route\<close>, in the documentation's
  \<^verbatim>\<open>medications\<close> list or as a task's \<^verbatim>\<open>medication_details\<close>, the normalized Medication has
  the route \<^verbatim>\<open>"oral"\<close>, not \<^verbatim>\<open>None\<close>.
\<close>

theorem route_defaults_to_oral:
  assumes "parse_response ios rnd (JObj rd) t = Inr r"
    and "py_iter (dget rd ''nurse_tasks'' (JArr [])) = Inr raw_tasks"
  shows "\<exists>doc raw_meds.
     dget rd ''documentation'' (JObj []) = JObj doc \<and>
     py_iter (dget doc ''medications'' (JArr [])) = Inr raw_meds \<and>
     length (doc_medications (res_documentation r)) = length raw_meds \<and>
     (\<forall>i < length raw_meds. \<exists>kw. raw_meds ! i = JObj kw \<and>
        (map_of kw ''route'' = None \<longrightarrow>
           med_route (doc_medications (res_documentation r) ! i) = Some ''oral'')) \<and>
     length (res_nurse_tasks r) = length raw_tasks \<and>
     (\<forall>i < length raw_tasks. \<exists>task. raw_tasks ! i = JObj task \<and>
        (\<forall>kw. map_of task ''medication_details'' = Some (JObj kw) \<and> kw \<noteq> [] \<and>
              map_of kw ''route'' = None \<longrightarrow>
           (\<exists>m. task_medication_details (res_nurse_tasks r ! i) = Some m \<and>
                med_route m = Some ''oral'')))"
proof -
  from assms obtain documentation tasks where
    doc: "documentation_of rd = Inr documentation" and
    tasks: "tasks_of ios rnd 0 raw_tasks = Inr tasks" and
    r: "res_documentation r = documentation" "res_nurse_tasks r = tasks"
    by (auto simp: parse_response_Inr)
  from documentation_of_Inr[OF doc] obtain dd where
    dd: "dget rd ''documentation'' (JObj []) = JObj dd" and
    meds: "model_list Medication_kw (dget dd ''medications'' (JArr []))
             = Inr (doc_medications documentation)"
    by blast
  from model_list_nth[OF meds] obtain raw_meds where
    it: "py_iter (dget dd ''medications'' (JArr [])) = Inr raw_meds" and
    len: "length (doc_medications documentation) = length raw_meds" and
    each: "\<forall>i < length raw_meds.
             \<exists>kw. raw_meds ! i = JObj kw \<and> Medication_kw kw = Inr (doc_medications documentation ! i)"
    by blast
  have a: "\<exists>kw. raw_meds ! i = JObj kw \<and>
        (map_of kw ''route'' = None \<longrightarrow> med_route (doc_medications documentation ! i) = Some ''oral'')"
    if "i < length raw_meds" for i
  proof -
    from each that obtain kw where
      "raw_meds ! i = JObj kw" "Medication_kw kw = Inr (doc_medications documentation ! i)"
      by blast
    then show ?thesis using Medication_kw_Inr by blast
  qed
  have b: "\<exists>task. raw_tasks ! i = JObj task \<and>
        (\<forall>kw. map_of task ''medication_details'' = Some (JObj kw) \<and> kw \<noteq> [] \<and>
              map_of kw ''route'' = None \<longrightarrow>
           (\<exists>m. task_medication_details (tasks ! i) = Some m \<and> med_route m = Some ''oral''))"
    if "i < length raw_tasks" for i
  proof -
    from task_of_Inr[OF tasks_of_nth(2)[OF tasks that]] obtain d where
      d: "raw_tasks ! i = JObj d" and
      md: "model_if_truthy Medication_kw (dget_none d ''medication_details'')
             = Inr (task_medication_details (tasks ! i))"
      by blast
    show ?thesis
      using d model_if_truthy_cases(2)[OF md] by (auto dest: Medication_kw_Inr)
  qed
  show ?thesis
    using dd it len a b tasks_of_nth(1)[OF tasks] r by auto
qed


theorem route_defaults_to_oral_witness:
  "parse_response (\<lambda>s. None) (\<lambda>n. 0) (JObj ward_fields) 1 = Inr (ward_result 1) \<and>
   ward_medication =
     JObj [(''drug_name'', JStr ''Paracetamol''), (''dosage'', JStr ''500mg''),
           (''frequency'', JStr ''twice daily'')] \<and>
   med_route (doc_medications (res_documentation (ward_result 1)) ! 0) = Some ''oral'' \<and>
   (\<exists>m. task_medication_details (res_nurse_tasks (ward_result 1) ! 0) = Some m \<and>
        med_route m = Some ''oral'')"
proof -
  have h1: "parse_response (\<lambda>s. None) (\<lambda>n. 0) (JObj ward_fields) 1 = Inr (ward_result 1)"
    by (rule parse_ward_input)
  show ?thesis
    using route_defaults_to_oral[OF h1 ward_nurse_tasks] h1
    by (simp add: ward_defs)
qed

subsection \<open>Composite objects\<close>

lemma model_if_truthy_dichotomy:
  assumes "model_if_truthy model (dget_none d k) = Inr r"
  shows "(\<not> truthy (dget_none d k) \<longrightarrow> r = None) \<and>
         (truthy (dget_none d k) \<longrightarrow>
            (\<exists>kw m. map_of d k = Some (JObj kw) \<and> kw \<noteq> [] \<and> r = Some m \<and> model kw = Inr m))"
  using assms by (auto simp: model_if_truthy_Inr dest: dget_none_cases(1))

lemma truthy_object: "map_of d k = Some (JObj kw) \<Longrightarrow> kw \<noteq> [] \<Longrightarrow> truthy (dget_none d k)"
  by (simp add: dget_none_def dget_def)

lemma composite_objects_in_result:
  assumes "parse_response ios rnd (JObj rd) t = Inr r"
    and "py_iter (dget rd ''nurse_tasks'' (JArr [])) = Inr raw_tasks"
  shows "\<exists>doc raw_audit.
     dget rd ''documentation'' (JObj []) = JObj doc \<and>
     py_iter (dget doc ''insurance_audit'' (JArr [])) = Inr raw_audit \<and>
     (\<not> truthy (dget_none doc ''nurse_handover'') \<longrightarrow>
        doc_nurse_handover (res_documentation r) = None) \<and>
     (truthy (dget_none doc ''nurse_handover'') \<longrightarrow>
        (\<exists>kw h. map_of doc ''nurse_handover'' = Some (JObj kw) \<and> kw \<noteq> [] \<and>
           doc_nurse_handover (res_documentation r) = Some h \<and> handover_of kw h)) \<and>
     (\<not> truthy (dget_none doc ''patient_summary'') \<longrightarrow>
        doc_patient_summary (res_documentation r) = None) \<and>
     (truthy (dget_none doc ''patient_summary'') \<longrightarrow>
        (\<exists>kw p. map_of doc ''patient_summary'' = Some (JObj kw) \<and> kw \<noteq> [] \<and>
           doc_patient_summary (res_documentation r) = Some p \<and> patient_summary_of kw p)) \<and>
     (map_of doc ''insurance_audit'' = None \<longrightarrow>
        doc_insurance_audit (res_documentation r) = []) \<and>
     length (doc_insurance_audit (res_documentation r)) = length raw_audit \<and>
     (\<forall>i < length raw_audit. \<exists>kw. raw_audit ! i = JObj kw \<and>
        insurance_issue_of kw (doc_insurance_audit (res_documentation r) ! i)) \<and>
     length (res_nurse_tasks r) = length raw_tasks \<and>
     (\<forall>i < length raw_tasks. \<exists>task. raw_tasks ! i = JObj task \<and>
        (\<not> truthy (dget_none task ''medication_details'') \<longrightarrow>
           task_medication_details (res_nurse_tasks r ! i) = None) \<and>
        (truthy (dget_none task ''medication_details'') \<longrightarrow>
           (\<exists>kw m. map_of task ''medication_details'' = Some (JObj kw) \<and> kw \<noteq> [] \<and>
              task_medication_details (res_nurse_tasks r ! i) = Some m \<and>
              medication_of kw m)))"
proof -
  from assms obtain documentation tasks where
    doc: "documentation_of rd = Inr documentation" and
    tasks: "tasks_of ios rnd 0 raw_tasks = Inr tasks" and
    r: "res_documentation r = documentation" "res_nurse_tasks r = tasks"
    by (auto simp: parse_response_Inr)
  from documentation_of_Inr[OF doc] obtain dd where
    dd: "dget rd ''documentation'' (JObj []) = JObj dd" and
    audit: "model_list InsuranceIssue_kw (dget dd ''insurance_audit'' (JArr []))
             = Inr (doc_insurance_audit documentation)" and
    nh: "model_if_truthy NurseHandover_kw (dget_none dd ''nurse_handover'')
           = Inr (doc_nurse_handover documentation)" and
    ps: "model_if_truthy PatientSummary_kw (dget_none dd ''patient_summary'')
           = Inr (doc_patient_summary documentation)"
    by blast
  from model_list_nth[OF audit] obtain raw_audit where
    it: "py_iter (dget dd ''insurance_audit'' (JArr [])) = Inr raw_audit" and
    len: "length (doc_insurance_audit documentation) = length raw_audit" and
    each: "\<forall>i < length raw_audit. \<exists>kw. raw_audit ! i = JObj kw \<and>
             InsuranceIssue_kw kw = Inr (doc_insurance_audit documentation ! i)"
    by blast
  have nh1: "\<not> truthy (dget_none dd ''nurse_handover'') \<longrightarrow>
        doc_nurse_handover documentation = None"
    using model_if_truthy_dichotomy[OF nh] by blast
  have nh2: "truthy (dget_none dd ''nurse_handover'') \<longrightarrow>
        (\<exists>kw h. map_of dd ''nurse_handover'' = Some (JObj kw) \<and> kw \<noteq> [] \<and>
           doc_nurse_handover documentation = Some h \<and> handover_of kw h)"
    using model_if_truthy_dichotomy[OF nh] NurseHandover_kw_Inr
    unfolding handover_of_def by blast
  have ps1: "\<not> truthy (dget_none dd ''patient_summary'') \<longrightarrow>
        doc_patient_summary documentation = None"
    using model_if_truthy_dichotomy[OF ps] by blast
  have ps2: "truthy (dget_none dd ''patient_summary'') \<longrightarrow>
        (\<exists>kw p. map_of dd ''patient_summary'' = Some (JObj kw) \<and> kw \<noteq> [] \<and>
           doc_patient_summary documentation = Some p \<and> patient_summary_of kw p)"
    using model_if_truthy_dichotomy[OF ps] PatientSummary_kw_Inr
    unfolding patient_summary_of_def by blast
  have au0: "map_of dd ''insurance_audit'' = None \<longrightarrow> doc_insurance_audit documentation = []"
    using it len by (auto simp: dget_def)
  have au: "\<forall>i < length raw_audit. \<exists>kw. raw_audit ! i = JObj kw \<and>
        insurance_issue_of kw (doc_insurance_audit documentation ! i)"
    using each InsuranceIssue_kw_Inr unfolding insurance_issue_of_def by blast
  have tk: "\<exists>task. raw_tasks ! i = JObj task \<and>
        (\<not> truthy (dget_none task ''medication_details'') \<longrightarrow>
           task_medication_details (tasks ! i) = None) \<and>
        (truthy (dget_none task ''medication_details'') \<longrightarrow>
           (\<exists>kw m. map_of task ''medication_details'' = Some (JObj kw) \<and> kw \<noteq> [] \<and>
              task_medication_details (tasks ! i) = Some m \<and> medication_of kw m))"
    if "i < length raw_tasks" for i
  proof -
    from task_of_Inr[OF tasks_of_nth(2)[OF tasks that]] obtain d where
      d: "raw_tasks ! i = JObj d" and
      md: "model_if_truthy Medication_kw (dget_none d ''medication_details'')
             = Inr (task_medication_details (tasks ! i))"
      by blast
    have m1: "\<not> truthy (dget_none d ''medication_details'') \<longrightarrow>
           task_medication_details (tasks ! i) = None"
      using model_if_truthy_dichotomy[OF md] by blast
    have m2: "truthy (dget_none d ''medication_details'') \<longrightarrow>
           (\<exists>kw m. map_of d ''medication_details'' = Some (JObj kw) \<and> kw \<noteq> [] \<and>
              task_medication_details (tasks ! i) = Some m \<and> medication_of kw m)"
      using model_if_truthy_dichotomy[OF md] Medication_kw_Inr
      unfolding medication_of_def by blast
    show ?thesis using d m1 m2 by blast
  qed
  have tk': "\<forall>i < length raw_tasks. \<exists>task. raw_tasks ! i = JObj task \<and>
        (\<not> truthy (dget_none task ''medication_details'') \<longrightarrow>
           task_medication_details (tasks ! i) = None) \<and>
        (truthy (dget_none task ''medication_details'') \<longrightarrow>
           (\<exists>kw m. map_of task ''medication_details'' = Some (JObj kw) \<and> kw \<noteq> [] \<and>
              task_medication_details (tasks ! i) = Some m \<and> medication_of kw m))"
    using tk by blast
  have len_t: "length tasks = length raw_tasks"
    by (rule tasks_of_nth(1)[OF tasks])
  show ?thesis
    unfolding r
    by (intro exI[of _ dd] exI[of _ raw_audit] conjI)
       (rule dd it nh1 nh2 ps1 ps2 au0 len au len_t tk')+
qed

lemma parse_empty_handover_input:
  "parse_response ios rnd empty_handover_input t = Inr (empty_result t)"
  by (simp add: parse_eval empty_handover_input_def empty_result_def
      empty_documentation_def)

lemma parse_partial_handover_input:
  "parse_response ios rnd partial_handover_input t = Inl ValidationError"
  by (simp add: parse_eval partial_handover_input_def)

lemma parse_null_audit_input:
  "parse_response ios rnd null_audit_input t = Inl TypeError"
  by (simp add: parse_eval null_audit_input_def)

text \<open>
  C4, as the code has it. In a result of \<^verbatim>\<open>_parse_response\<close>: where \<^verbatim>\<open>nurse_handover\<close> is
  absent, null, the empty object or another false value, the documentation has no
  handover; in every other case the raw value is a non-empty object that holds all three
  of \<^verbatim>\<open>summary_sbar\<close>, \<^verbatim>\<open>critical_alerts\<close> and \<^verbatim>\<open>pending_actions\<close>, and the handover in the
  result carries the three: none is built with a part missing. So a non-empty handover
  object that lacks one of the three has no result: the call raises. The same holds of
  \<^verbatim>\<open>patient_summary\<close> and of the medication embedded in a task; every insurance issue of a
  result comes from a raw object holding its four fields, an absent \<^verbatim>\<open>insurance_audit\<close>
  gives the empty list, and a null one has no result.
\<close>

theorem composite_objects_whole_or_absent:
  "(parse_response ios rnd (JObj rd) t = Inr r \<and>
    py_iter (dget rd ''nurse_tasks'' (JArr [])) = Inr raw_tasks \<longrightarrow>
    (\<exists>doc raw_audit.
     dget rd ''documentation'' (JObj []) = JObj doc \<and>
     py_iter (dget doc ''insurance_audit'' (JArr [])) = Inr raw_audit \<and>
     (\<not> truthy (dget_none doc ''nurse_handover'') \<longrightarrow>
        doc_nurse_handover (res_documentation r) = None) \<and>
     (truthy (dget_none doc ''nurse_handover'') \<longrightarrow>
        (\<exists>kw h. map_of doc ''nurse_handover'' = Some (JObj kw) \<and> kw \<noteq> [] \<and>
           doc_nurse_handover (res_documentation r) = Some h \<and> handover_of kw h)) \<and>
     (\<not> truthy (dget_none doc ''patient_summary'') \<longrightarrow>
        doc_patient_summary (res_documentation r) = None) \<and>
     (truthy (dget_none doc ''patient_summary'') \<longrightarrow>
        (\<exists>kw p. map_of doc ''patient_summary'' = Some (JObj kw) \<and> kw \<noteq> [] \<and>
           doc_patient_summary (res_documentation r) = Some p \<and> patient_summary_of kw p)) \<and>
     (map_of doc ''insurance_audit'' = None \<longrightarrow>
        doc_insurance_audit (res_documentation r) = []) \<and>
     length (doc_insurance_audit (res_documentation r)) = length raw_audit \<and>
     (\<forall>i < length raw_audit. \<exists>kw. raw_audit ! i = JObj kw \<and>
        insurance_issue_of kw (doc_insurance_audit (res_documentation r) ! i)) \<and>
     length (res_nurse_tasks r) = length raw_tasks \<and>
     (\<forall>i < length raw_tasks. \<exists>task. raw_tasks ! i = JObj task \<and>
        (\<not> truthy (dget_none task ''medication_details'') \<longrightarrow>
           task_medication_details (res_nurse_tasks r ! i) = None) \<and>
        (truthy (dget_none task ''medication_details'') \<longrightarrow>
           (\<exists>kw m. map_of task ''medication_details'' = Some (JObj kw) \<and> kw \<noteq> [] \<and>
              task_medication_details (res_nurse_tasks r ! i) = Some m \<and>
              medication_of kw m))))) \<and>
   (\<forall>doc kw.
      dget rd ''documentation'' (JObj []) = JObj doc \<and>
      map_of doc ''nurse_handover'' = Some (JObj kw) \<and> kw \<noteq> [] \<and>
      (\<forall>h. \<not> handover_of kw h) \<longrightarrow>
      (\<forall>r'. parse_response ios rnd (JObj rd) t \<noteq> Inr r')) \<and>
   (\<forall>doc kw.
      dget rd ''documentation'' (JObj []) = JObj doc \<and>
      map_of doc ''patient_summary'' = Some (JObj kw) \<and> kw \<noteq> [] \<and>
      (\<forall>p. \<not> patient_summary_of kw p) \<longrightarrow>
      (\<forall>r'. parse_response ios rnd (JObj rd) t \<noteq> Inr r')) \<and>
   (\<forall>doc.
      dget rd ''documentation'' (JObj []) = JObj doc \<and>
      map_of doc ''insurance_audit'' = Some JNull \<longrightarrow>
      (\<forall>r'. parse_response ios rnd (JObj rd) t \<noteq> Inr r')) \<and>
   (\<forall>tasks i task kw.
      py_iter (dget rd ''nurse_tasks'' (JArr [])) = Inr tasks \<and> i < length tasks \<and>
      tasks ! i = JObj task \<and>
      map_of task ''medication_details'' = Some (JObj kw) \<and> kw \<noteq> [] \<and>
      (\<forall>m. \<not> medication_of kw m) \<longrightarrow>
      (\<forall>r'. parse_response ios rnd (JObj rd) t \<noteq> Inr r'))"
proof (intro conjI allI impI)
  assume h: "parse_response ios rnd (JObj rd) t = Inr r \<and>
    py_iter (dget rd ''nurse_tasks'' (JArr [])) = Inr raw_tasks"
  show "\<exists>doc raw_audit.
     dget rd ''documentation'' (JObj []) = JObj doc \<and>
     py_iter (dget doc ''insurance_audit'' (JArr [])) = Inr raw_audit \<and>
     (\<not> truthy (dget_none doc ''nurse_handover'') \<longrightarrow>
        doc_nurse_handover (res_documentation r) = None) \<and>
     (truthy (dget_none doc ''nurse_handover'') \<longrightarrow>
        (\<exists>kw h. map_of doc ''nurse_handover'' = Some (JObj kw) \<and> kw \<noteq> [] \<and>
           doc_nurse_handover (res_documentation r) = Some h \<and> handover_of kw h)) \<and>
     (\<not> truthy (dget_none doc ''patient_summary'') \<longrightarrow>
        doc_patient_summary (res_documentation r) = None) \<and>
     (truthy (dget_none doc ''patient_summary'') \<longrightarrow>
        (\<exists>kw p. map_of doc ''patient_summary'' = Some (JObj kw) \<and> kw \<noteq> [] \<and>
           doc_patient_summary (res_documentation r) = Some p \<and> patient_summary_of kw p)) \<and>
     (map_of doc ''insurance_audit'' = None \<longrightarrow>
        doc_insurance_audit (res_documentation r) = []) \<and>
     length (doc_insurance_audit (res_documentation r)) = length raw_audit \<and>
     (\<forall>i < length raw_audit. \<exists>kw. raw_audit ! i = JObj kw \<and>
        insurance_issue_of kw (doc_insurance_audit (res_documentation r) ! i)) \<and>
     length (res_nurse_tasks r) = length raw_tasks \<and>
     (\<forall>i < length raw_tasks. \<exists>task. raw_tasks ! i = JObj task \<and>
        (\<not> truthy (dget_none task ''medication_details'') \<longrightarrow>
           task_medication_details (res_nurse_tasks r ! i) = None) \<and>
        (truthy (dget_none task ''medication_details'') \<longrightarrow>
           (\<exists>kw m. map_of task ''medication_details'' = Some (JObj kw) \<and> kw \<noteq> [] \<and>
              task_medication_details (res_nurse_tasks r ! i) = Some m \<and>
              medication_of kw m)))"
    by (rule composite_objects_in_result[OF conjunct1[OF h] conjunct2[OF h]])
next
  fix doc kw r'
  assume a: "dget rd ''documentation'' (JObj []) = JObj doc \<and>
      map_of doc ''nurse_handover'' = Some (JObj kw) \<and> kw \<noteq> [] \<and>
      (\<forall>h. \<not> handover_of kw h)"
  show "parse_response ios rnd (JObj rd) t \<noteq> Inr r'"
  proof
    assume p: "parse_response ios rnd (JObj rd) t = Inr r'"
    then obtain raw where "py_iter (dget rd ''nurse_tasks'' (JArr [])) = Inr raw"
      by (auto simp: parse_response_Inr)
    from composite_objects_in_result[OF p this] obtain doc' where
      d': "dget rd ''documentation'' (JObj []) = JObj doc'" and
      n': "truthy (dget_none doc' ''nurse_handover'') \<longrightarrow>
        (\<exists>kw h. map_of doc' ''nurse_handover'' = Some (JObj kw) \<and> kw \<noteq> [] \<and>
           doc_nurse_handover (res_documentation r') = Some h \<and> handover_of kw h)"
      by blast
    have "doc' = doc" using d' a by simp
    then show False
      using n' a truthy_object[of doc "''nurse_handover''" kw] by auto
  qed
next
  fix doc kw r'
  assume a: "dget rd ''documentation'' (JObj []) = JObj doc \<and>
      map_of doc ''patient_summary'' = Some (JObj kw) \<and> kw \<noteq> [] \<and>
      (\<forall>p. \<not> patient_summary_of kw p)"
  show "parse_response ios rnd (JObj rd) t \<noteq> Inr r'"
  proof
    assume p: "parse_response ios rnd (JObj rd) t = Inr r'"
    then obtain raw where "py_iter (dget rd ''nurse_tasks'' (JArr [])) = Inr raw"
      by (auto simp: parse_response_Inr)
    from composite_objects_in_result[OF p this] obtain doc' where
      d': "dget rd ''documentation'' (JObj []) = JObj doc'" and
      n': "truthy (dget_none doc' ''patient_summary'') \<longrightarrow>
        (\<exists>kw p. map_of doc' ''patient_summary'' = Some (JObj kw) \<and> kw \<noteq> [] \<and>
           doc_patient_summary (res_documentation r') = Some p \<and> patient_summary_of kw p)"
      by blast
    have "doc' = doc" using d' a by simp
    then show False
      using n' a truthy_object[of doc "''patient_summary''" kw] by auto
  qed
next
  fix doc r'
  assume a: "dget rd ''documentation'' (JObj []) = JObj doc \<and>
      map_of doc ''insurance_audit'' = Some JNull"
  show "parse_response ios rnd (JObj rd) t \<noteq> Inr r'"
  proof
    assume p: "parse_response ios rnd (JObj rd) t = Inr r'"
    then obtain raw where "py_iter (dget rd ''nurse_tasks'' (JArr [])) = Inr raw"
      by (auto simp: parse_response_Inr)
    from composite_objects_in_result[OF p this] obtain doc' raw_audit where
      d': "dget rd ''documentation'' (JObj []) = JObj doc'" and
      i': "py_iter (dget doc' ''insurance_audit'' (JArr [])) = Inr raw_audit"
      by blast
    have "doc' = doc" using d' a by simp
    then show False
      using i' a by (simp add: dget_def)
  qed
next
  fix tasks i task kw r'
  assume a: "py_iter (dget rd ''nurse_tasks'' (JArr [])) = Inr tasks \<and> i < length tasks \<and>
      tasks ! i = JObj task \<and>
      map_of task ''medication_details'' = Some (JObj kw) \<and> kw \<noteq> [] \<and>
      (\<forall>m. \<not> medication_of kw m)"
  show "parse_response ios rnd (JObj rd) t \<noteq> Inr r'"
  proof
    assume p: "parse_response ios rnd (JObj rd) t = Inr r'"
    from a have it: "py_iter (dget rd ''nurse_tasks'' (JArr [])) = Inr tasks" by simp
    from composite_objects_in_result[OF p it] have
      "\<forall>i < length tasks. \<exists>task. tasks ! i = JObj task \<and>
        (\<not> truthy (dget_none task ''medication_details'') \<longrightarrow>
           task_medication_details (res_nurse_tasks r' ! i) = None) \<and>
        (truthy (dget_none task ''medication_details'') \<longrightarrow>
           (\<exists>kw m. map_of task ''medication_details'' = Some (JObj kw) \<and> kw \<noteq> [] \<and>
              task_medication_details (res_nurse_tasks r' ! i) = Some m \<and>
              medication_of kw m))"
      by blast
    then obtain task' where
      t: "tasks ! i = JObj task'" and
      m: "truthy (dget_none task' ''medication_details'') \<longrightarrow>
           (\<exists>kw m. map_of task' ''medication_details'' = Some (JObj kw) \<and> kw \<noteq> [] \<and>
              task_medication_details (res_nurse_tasks r' ! i) = Some m \<and>
              medication_of kw m)"
      using a by blast
    from t a have "task' = task" by simp
    then show False
      using m a truthy_object[of task "''medication_details''" kw] by auto
  qed
qed

theorem composite_objects_whole_or_absent_witness:
  "parse_response (\<lambda>s. None) (\<lambda>n. 0) (JObj ward_fields) 1 = Inr (ward_result 1) \<and>
   py_iter (dget ward_fields ''nurse_tasks'' (JArr [])) = Inr ward_tasks \<and>
   truthy (dget_none ward_doc ''nurse_handover'') \<and>
   doc_nurse_handover (res_documentation (ward_result 1))
     = Some \<lparr>nh_summary_sbar = ''SBAR'', nh_critical_alerts = [''A1''],
             nh_pending_actions = []\<rparr> \<and>
   doc_patient_summary (res_documentation (ward_result 1))
     = Some \<lparr>ps_translated_content = ''TC'', ps_whatsapp_message = ''WM''\<rparr> \<and>
   task_medication_details (res_nurse_tasks (ward_result 1) ! 0) = Some ward_med \<and>
   \<not> truthy (dget_none [(''task_id'', JStr ''t-7'')] ''medication_details'') \<and>
   task_medication_details (res_nurse_tasks (ward_result 1) ! 1) = None \<and>
   (\<forall>h. \<not> handover_of [(''summary_sbar'', JStr ''S'')] h) \<and>
   parse_response (\<lambda>s. None) (\<lambda>n. 0) partial_handover_input 1 = Inl ValidationError"
proof -
  have h1: "parse_response (\<lambda>s. None) (\<lambda>n. 0) (JObj ward_fields) 1 = Inr (ward_result 1)"
    by (rule parse_ward_input)
  have h2: "\<forall>h. \<not> handover_of [(''summary_sbar'', JStr ''S'')] h"
    by (simp add: handover_of_def holds_strs_def)
  show ?thesis
    using composite_objects_whole_or_absent
        [of "\<lambda>s. None" "\<lambda>n. 0" ward_fields 1 "ward_result 1" ward_tasks]
      h1 h2 ward_nurse_tasks
      parse_partial_handover_input[of "\<lambda>s. None" "\<lambda>n. 0" 1]
    by (simp add: ward_defs dget_none_def dget_def)
qed

theorem present_handover_counterexample:
  "parse_response reads_no_int zero_draws empty_handover_input 1 = Inr (empty_result 1) \<and>
   doc_nurse_handover (res_documentation (empty_result 1)) = None \<and>
   parse_response reads_no_int zero_draws partial_handover_input 1 = Inl ValidationError \<and>
   parse_response reads_no_int zero_draws null_audit_input 1 = Inl TypeError"
  using parse_empty_handover_input parse_partial_handover_input parse_null_audit_input
  by (simp add: empty_result_def empty_documentation_def)

lemma Emotion_of_Inr: "Emotion_of j = Inr e \<longleftrightarrow> j = JStr (Emotion_value e)"
  by (cases j; cases e) (auto split: if_splits)

lemma Priority_of_Inr: "Priority_of j = Inr e \<longleftrightarrow> j = JStr (Priority_value e)"
  by (cases j; cases e) (auto split: if_splits)

lemma TaskStatus_of_Inr: "TaskStatus_of j = Inr e \<longleftrightarrow> j = JStr (TaskStatus_value e)"
  by (cases j; cases e) (auto split: if_splits)

lemma Emotion_value_closed: "Emotion_value e \<in> set Emotion_values"
  by (cases e) (simp_all add: Emotion_values_def)

lemma Priority_value_closed: "Priority_value e \<in> set Priority_values"
  by (cases e) (simp_all add: Priority_values_def)

lemma TaskStatus_value_closed: "TaskStatus_value e \<in> set TaskStatus_values"
  by (cases e) (simp_all add: TaskStatus_values_def)

lemma segment_of_Inr:
  "segment_of seg = Inr s \<Longrightarrow>
     \<exists>d. seg = JObj d \<and> Emotion_of (dget d ''emotion'' (JStr ''neutral'')) = Inr (seg_emotion s)"
  unfolding segment_of_def bind_res_Inr as_dict_Inr by force

lemma dget_enum:
  "dget d k (JStr dflt) = JStr held \<Longrightarrow> absent_default_or_exact d k dflt held"
  by (auto simp: dget_def absent_default_or_exact_def split: option.splits)

subsection \<open>Enumerated fields\<close>

text \<open>
  C2, as the code has it. In every result of \<^verbatim>\<open>_parse_response\<close> each enum field holds a
  member of its closed set; where the raw key is absent the member is the default
  (neutral, MEDIUM, PENDING), and where it is present the raw value is exactly, case
  and all, the string of the member held. So a present value outside the closed set is
  not replaced by the default: no result is built from it (the enum constructor raises
  ValueError).
\<close>

theorem enum_fields_default_or_exact:
  assumes "parse_response ios rnd (JObj rd) t = Inr r"
    and "py_iter (dget rd ''transcript_segments'' (JArr [])) = Inr raw_segments"
    and "py_iter (dget rd ''nurse_tasks'' (JArr [])) = Inr raw_tasks"
  shows "length (res_transcript_segments r) = length raw_segments \<and>
     (\<forall>i < length raw_segments. \<exists>seg. raw_segments ! i = JObj seg \<and>
        Emotion_value (seg_emotion (res_transcript_segments r ! i)) \<in> set Emotion_values \<and>
        absent_default_or_exact seg ''emotion'' ''neutral''
          (Emotion_value (seg_emotion (res_transcript_segments r ! i)))) \<and>
     length (res_nurse_tasks r) = length raw_tasks \<and>
     (\<forall>i < length raw_tasks. \<exists>task. raw_tasks ! i = JObj task \<and>
        Priority_value (task_priority (res_nurse_tasks r ! i)) \<in> set Priority_values \<and>
        absent_default_or_exact task ''priority'' ''MEDIUM''
          (Priority_value (task_priority (res_nurse_tasks r ! i))) \<and>
        TaskStatus_value (task_status (res_nurse_tasks r ! i)) \<in> set TaskStatus_values \<and>
        absent_default_or_exact task ''status'' ''PENDING''
          (TaskStatus_value (task_status (res_nurse_tasks r ! i))))"
proof -
  from assms obtain segments tasks where
    segs: "mapM_res segment_of raw_segments = Inr segments" and
    tasks: "tasks_of ios rnd 0 raw_tasks = Inr tasks" and
    r: "res_transcript_segments r = segments" "res_nurse_tasks r = tasks"
    by (auto simp: parse_response_Inr)
  have a: "\<exists>seg. raw_segments ! i = JObj seg \<and>
        Emotion_value (seg_emotion (segments ! i)) \<in> set Emotion_values \<and>
        absent_default_or_exact seg ''emotion'' ''neutral''
          (Emotion_value (seg_emotion (segments ! i)))"
    if "i < length raw_segments" for i
  proof -
    from segment_of_Inr[OF mapM_res_nth(2)[OF segs that]] obtain d where
      d: "raw_segments ! i = JObj d" and
      e: "dget d ''emotion'' (JStr ''neutral'') = JStr (Emotion_value (seg_emotion (segments ! i)))"
      by (auto simp: Emotion_of_Inr)
    show ?thesis
      using d dget_enum[OF e] Emotion_value_closed by blast
  qed
  have b: "\<exists>task. raw_tasks ! i = JObj task \<and>
        Priority_value (task_priority (tasks ! i)) \<in> set Priority_values \<and>
        absent_default_or_exact task ''priority'' ''MEDIUM''
          (Priority_value (task_priority (tasks ! i))) \<and>
        TaskStatus_value (task_status (tasks ! i)) \<in> set TaskStatus_values \<and>
        absent_default_or_exact task ''status'' ''PENDING''
          (TaskStatus_value (task_status (tasks ! i)))"
    if "i < length raw_tasks" for i
  proof -
    from task_of_Inr[OF tasks_of_nth(2)[OF tasks that]] obtain d where
      d: "raw_tasks ! i = JObj d" and
      p: "dget d ''priority'' (JStr ''MEDIUM'') = JStr (Priority_value (task_priority (tasks ! i)))" and
      s: "dget d ''status'' (JStr ''PENDING'') = JStr (TaskStatus_value (task_status (tasks ! i)))"
      by (auto simp: Priority_of_Inr TaskStatus_of_Inr)
    show ?thesis
      using d dget_enum[OF p] dget_enum[OF s] Priority_value_closed TaskStatus_value_closed
      by blast
  qed
  show ?thesis
    unfolding r
    using a b mapM_res_nth(1)[OF segs] tasks_of_nth(1)[OF tasks] by blast
qed

theorem enum_fields_default_or_exact_witness:
  "parse_response (\<lambda>s. None) (\<lambda>n. 0) (JObj ward_fields) 1 = Inr (ward_result 1) \<and>
   map (\<lambda>s. Emotion_value (seg_emotion s)) (res_transcript_segments (ward_result 1))
     = [''calm'', ''neutral''] \<and>
   map (\<lambda>t. Priority_value (task_priority t)) (res_nurse_tasks (ward_result 1))
     = [''HIGH'', ''MEDIUM''] \<and>
   map (\<lambda>t. TaskStatus_value (task_status t)) (res_nurse_tasks (ward_result 1))
     = [''IN_PROGRESS'', ''PENDING'']"
proof -
  have h1: "parse_response (\<lambda>s. None) (\<lambda>n. 0) (JObj ward_fields) 1 = Inr (ward_result 1)"
    by (rule parse_ward_input)
  show ?thesis
    using enum_fields_default_or_exact[OF h1 ward_segments ward_nurse_tasks] h1
    by (simp add: ward_defs)
qed

theorem enum_outside_closed_set_counterexample:
  "parse_response reads_no_int zero_draws
     (JObj [(''transcript_segments'', JArr [JObj [(''emotion'', JStr ''worried'')]])]) 1
     = Inl ValueError \<and>
   parse_response reads_no_int zero_draws
     (JObj [(''nurse_tasks'', JArr [JObj [(''priority'', JStr ''URGENT'')]])]) 1
     = Inl ValueError \<and>
   parse_response reads_no_int zero_draws
     (JObj [(''nurse_tasks'', JArr [JObj [(''status'', JStr ''pending'')]])]) 1
     = Inl ValueError"
  by (simp add: parse_eval)

lemma parse_ward_input_any:
  "parse_response ios rnd (JObj ward_fields) t
     = Inr (ward_result_with (fresh_task_id (rnd 0)) t)"
  by (simp add: parse_eval ward_defs ward_result_with_def)

lemma fresh_task_id_2a: "fresh_task_id 0x2a000000000000000000000000 = ''0000002a''"
  by (simp add: fresh_task_id_def uuid_str_def uuid4_def uuid_hex_def hexdigit_def upt_rec)

lemma task_of_absent_id:
  assumes "map_of d ''task_id'' = None"
  shows "task_of ios r (JObj d) =
     (case task_of ios r' (JObj d) of
        Inl e \<Rightarrow> Inl e
      | Inr a \<Rightarrow> Inr (a\<lparr>task_id := fresh_task_id r\<rparr>))"
  using assms by (simp add: task_of_def bind_res_def dget_def split: sum.splits)

lemma task_of_present_id:
  assumes "map_of d ''task_id'' = Some v"
  shows "task_of ios r (JObj d) = task_of ios r' (JObj d)"
  using assms by (simp add: task_of_def dget_def bind_res_def split: sum.splits)

lemma task_of_not_dict:
  assumes "\<forall>d. task \<noteq> JObj d"
  shows "task_of ios r task = Inl AttributeError"
  using assms by (cases task) (simp_all add: task_of_def bind_res_def)

lemma task_of_two_draws:
  "rel_sum (=)
     (\<lambda>a b. a = b\<lparr>task_id := task_id a\<rparr> \<and>
        (\<forall>d. task = JObj d \<longrightarrow> map_of d ''task_id'' \<noteq> None \<longrightarrow> a = b))
     (task_of ios r1 task) (task_of ios r2 task)"
proof (cases "\<exists>d. task = JObj d")
  case False
  then show ?thesis by (simp add: task_of_not_dict)
next
  case True
  then obtain d where d: "task = JObj d" by blast
  show ?thesis
  proof (cases "map_of d ''task_id''")
    case None
    show ?thesis
      unfolding d task_of_absent_id[OF None, of ios r1 r2]
      by (cases "task_of ios r2 (JObj d)") (simp_all add: None)
  next
    case (Some v)
    show ?thesis
      unfolding d task_of_present_id[OF Some, of ios r1 r2]
      by (cases "task_of ios r2 (JObj d)") simp_all
  qed
qed

lemma task_of_Inl_two_draws:
  "task_of ios r1 task = Inl e \<Longrightarrow> task_of ios r2 task = Inl e"
  using task_of_two_draws[of task ios r1 r2]
  by (cases "task_of ios r2 task") auto

lemma task_of_Inr_two_draws:
  "task_of ios r1 task = Inr a \<Longrightarrow> \<exists>b. task_of ios r2 task = Inr b"
  using task_of_two_draws[of task ios r1 r2]
  by (cases "task_of ios r2 task") auto

lemma tasks_of_Inl_two_draws:
  "tasks_of ios rnd1 n ts = Inl e \<Longrightarrow> tasks_of ios rnd2 n ts = Inl e"
proof (induction ts arbitrary: n)
  case Nil
  then show ?case by simp
next
  case (Cons t ts)
  show ?case
  proof (cases "task_of ios (rnd1 n) t")
    case (Inl e1)
    then have "e1 = e" using Cons.prems by simp
    then show ?thesis using task_of_Inl_two_draws[OF Inl, of "rnd2 n"] by simp
  next
    case (Inr a)
    then obtain b where b: "task_of ios (rnd2 n) t = Inr b"
      using task_of_Inr_two_draws by blast
    from Cons.prems Inr have "tasks_of ios rnd1 (Suc n) ts = Inl e"
      by (simp split: sum.splits)
    then have "tasks_of ios rnd2 (Suc n) ts = Inl e" by (rule Cons.IH)
    then show ?thesis using b by simp
  qed
qed

lemma parse_response_Inl_two_draws:
  assumes "parse_response ios rnd1 d t = Inl e"
  shows "parse_response ios rnd2 d t = Inl e"
proof -
  have tasks: "tasks_of ios rnd2 0 ts = Inr ys2 \<Longrightarrow> \<exists>ys1. tasks_of ios rnd1 0 ts = Inr ys1"
    for ts ys2
    by (cases "tasks_of ios rnd1 0 ts") (auto dest: tasks_of_Inl_two_draws[where ?rnd2.0 = rnd2])
  show ?thesis
    using assms
    unfolding parse_response_def bind_res_def
    by (auto split: sum.splits dest: tasks_of_Inl_two_draws[where ?rnd2.0 = rnd2] tasks
        tasks_of_Inl_two_draws[where ?rnd1.0 = rnd2 and ?rnd2.0 = rnd1])
qed

subsection \<open>Determinism\<close>

text \<open>
  C7. Two calls of \<^verbatim>\<open>_parse_response\<close> on the same raw input and elapsed time, whatever the
  random draws of each, fail alike or return results equal in every field but the
  \<^verbatim>\<open>task_id\<close> of tasks: and the \<^verbatim>\<open>task_id\<close> too is equal wherever the raw task has the key.
\<close>

theorem deterministic_up_to_synthesized_ids:
  "(parse_response ios rnd1 d t = Inl e \<longleftrightarrow> parse_response ios rnd2 d t = Inl e) \<and>
   (parse_response ios rnd1 d t = Inr r1 \<and> parse_response ios rnd2 d t = Inr r2 \<longrightarrow>
      res_summary r1 = res_summary r2 \<and>
      res_transcript_segments r1 = res_transcript_segments r2 \<and>
      res_documentation r1 = res_documentation r2 \<and>
      res_processing_time r1 = res_processing_time r2 \<and>
      length (res_nurse_tasks r1) = length (res_nurse_tasks r2) \<and>
      (\<forall>i < length (res_nurse_tasks r1).
         res_nurse_tasks r1 ! i
           = (res_nurse_tasks r2 ! i)\<lparr>task_id := task_id (res_nurse_tasks r1 ! i)\<rparr> \<and>
         (\<forall>rd raw_tasks task.
            d = JObj rd \<and> py_iter (dget rd ''nurse_tasks'' (JArr [])) = Inr raw_tasks \<and>
            raw_tasks ! i = JObj task \<and> map_of task ''task_id'' \<noteq> None \<longrightarrow>
            res_nurse_tasks r1 ! i = res_nurse_tasks r2 ! i)))"
proof (intro conjI impI)
  show "parse_response ios rnd1 d t = Inl e \<longleftrightarrow> parse_response ios rnd2 d t = Inl e"
    using parse_response_Inl_two_draws by blast
next
  assume both: "parse_response ios rnd1 d t = Inr r1 \<and> parse_response ios rnd2 d t = Inr r2"
  then obtain rd raw_tasks tasks1 tasks2 where
    d: "d = JObj rd" and
    it: "py_iter (dget rd ''nurse_tasks'' (JArr [])) = Inr raw_tasks" and
    t1: "tasks_of ios rnd1 0 raw_tasks = Inr tasks1" and
    t2: "tasks_of ios rnd2 0 raw_tasks = Inr tasks2" and
    r1: "res_nurse_tasks r1 = tasks1" and r2: "res_nurse_tasks r2 = tasks2" and
    same: "res_summary r1 = res_summary r2"
      "res_transcript_segments r1 = res_transcript_segments r2"
      "res_documentation r1 = res_documentation r2"
      "res_processing_time r1 = res_processing_time r2"
    by (auto simp: parse_response_Inr)
  have len: "length tasks1 = length raw_tasks" "length tasks2 = length raw_tasks"
    using tasks_of_nth(1)[OF t1] tasks_of_nth(1)[OF t2] by simp_all
  have each: "tasks1 ! i = (tasks2 ! i)\<lparr>task_id := task_id (tasks1 ! i)\<rparr> \<and>
      (\<forall>task. raw_tasks ! i = JObj task \<longrightarrow> map_of task ''task_id'' \<noteq> None \<longrightarrow>
         tasks1 ! i = tasks2 ! i)"
    if "i < length raw_tasks" for i
    using task_of_two_draws[of "raw_tasks ! i" ios "rnd1 i" "rnd2 i"]
      tasks_of_nth(2)[OF t1 that] tasks_of_nth(2)[OF t2 that]
    by simp
  show "res_summary r1 = res_summary r2" by (rule same)
  show "res_transcript_segments r1 = res_transcript_segments r2" by (rule same)
  show "res_documentation r1 = res_documentation r2" by (rule same)
  show "res_processing_time r1 = res_processing_time r2" by (rule same)
  show "length (res_nurse_tasks r1) = length (res_nurse_tasks r2)"
    using len r1 r2 by simp
  show "\<forall>i < length (res_nurse_tasks r1).
         res_nurse_tasks r1 ! i
           = (res_nurse_tasks r2 ! i)\<lparr>task_id := task_id (res_nurse_tasks r1 ! i)\<rparr> \<and>
         (\<forall>rd raw_tasks task.
            d = JObj rd \<and> py_iter (dget rd ''nurse_tasks'' (JArr [])) = Inr raw_tasks \<and>
            raw_tasks ! i = JObj task \<and> map_of task ''task_id'' \<noteq> None \<longrightarrow>
            res_nurse_tasks r1 ! i = res_nurse_tasks r2 ! i)"
    unfolding r1 r2 using each len d it by auto
qed

theorem deterministic_up_to_synthesized_ids_witness:
  "parse_response (\<lambda>s. None) (\<lambda>n. 0) (JObj ward_fields) 1
     = Inr (ward_result_with ''00000000'' 1) \<and>
   parse_response (\<lambda>s. None) (\<lambda>n. 0x2a000000000000000000000000) (JObj ward_fields) 1
     = Inr (ward_result_with ''0000002a'' 1) \<and>
   res_documentation (ward_result_with ''00000000'' 1)
     = res_documentation (ward_result_with ''0000002a'' 1) \<and>
   res_nurse_tasks (ward_result_with ''00000000'' 1) ! 1
     = res_nurse_tasks (ward_result_with ''0000002a'' 1) ! 1 \<and>
   map task_id (res_nurse_tasks (ward_result_with ''00000000'' 1)) = [''00000000'', ''t-7''] \<and>
   map task_id (res_nurse_tasks (ward_result_with ''0000002a'' 1)) = [''0000002a'', ''t-7'']"
proof -
  have h1: "parse_response (\<lambda>s. None) (\<lambda>n. 0) (JObj ward_fields) 1
     = Inr (ward_result_with ''00000000'' 1)"
    using parse_ward_input_any[of "\<lambda>s. None" "\<lambda>n. 0" 1] by (simp add: fresh_task_id_0)
  have h2: "parse_response (\<lambda>s. None) (\<lambda>n. 0x2a000000000000000000000000) (JObj ward_fields) 1
     = Inr (ward_result_with ''0000002a'' 1)"
    using parse_ward_input_any[of "\<lambda>s. None" "\<lambda>n. 0x2a000000000000000000000000" 1]
    by (simp add: fresh_task_id_2a)
  show ?thesis
    using h1 h2
      deterministic_up_to_synthesized_ids
        [of "\<lambda>s. None" "\<lambda>n. 0" "JObj ward_fields" 1 ValueError
            "\<lambda>n. 0x2a000000000000000000000000" "ward_result_with ''00000000'' 1"
            "ward_result_with ''0000002a'' 1"]
    by (simp add: ward_result_with_def ward_defs)
qed

lemma length_uuid_hex: "length (uuid_hex u) = 32"
  by (simp add: uuid_hex_def)

lemma fresh_task_id_digits:
  "fresh_task_id r
     = map (\<lambda>i. hexdigit (unat (drop_bit (4 * (31 - i)) (uuid4 r) AND 15))) [0..<8]"
proof -
  have "take 8 (uuid_str u) = take 8 (uuid_hex u)" for u
    by (simp add: uuid_str_def Let_def length_uuid_hex)
  moreover have "take 8 (uuid_hex u)
      = map (\<lambda>i. hexdigit (unat (drop_bit (4 * (31 - i)) u AND 15))) [0..<8]" for u
    by (simp add: uuid_hex_def take_map)
  ultimately show ?thesis by (simp add: fresh_task_id_def)
qed

lemma hexdigit_hex: "n < 16 \<Longrightarrow> hexdigit n \<in> hex_chars"
proof -
  assume n: "n < 16"
  have "list_all (\<lambda>n. hexdigit n \<in> hex_chars) [0..<16]"
    by (simp add: upt_rec hexdigit_def hex_chars_def)
  then show ?thesis
    using n by (simp add: list_all_iff)
qed

lemma nibble_less: "unat ((w :: 128 word) AND 15) < 16"
proof -
  have "w AND 15 \<le> 15" by (rule word_and_le1)
  then have "unat (w AND 15) \<le> unat (15 :: 128 word)" by (simp add: word_le_nat_alt)
  then show ?thesis by simp
qed

lemma fresh_task_id_shape:
  "length (fresh_task_id r) = 8 \<and> fresh_task_id r \<noteq> [] \<and> set (fresh_task_id r) \<subseteq> hex_chars"
proof -
  have "length (fresh_task_id r) = 8" by (simp add: fresh_task_id_digits)
  moreover have "set (fresh_task_id r) \<subseteq> hex_chars"
    unfolding fresh_task_id_digits using hexdigit_hex[OF nibble_less] by auto
  ultimately show ?thesis by auto
qed

lemma task_of_task_id:
  assumes "task_of ios r task = Inr t"
  shows "\<exists>d. task = JObj d \<and>
    (case map_of d ''task_id'' of
       None \<Rightarrow> task_id t = fresh_task_id r
     | Some v \<Rightarrow> v = JStr (task_id t))"
proof -
  from task_of_Inr[OF assms] obtain d where
    d: "task = JObj d" and
    i: "dget d ''task_id'' (JStr (fresh_task_id r)) = JStr (task_id t)"
    by blast
  show ?thesis using d i by (auto simp: dget_def split: option.splits)
qed

lemma parse_repeated_id_input:
  "task_ids_of (parse_response reads_no_int zero_draws repeated_id_input 1)
     = Inr [''00000000'', ''dup'', ''dup'']"
  by (simp add: task_ids_of_def parse_eval repeated_id_input_def zero_draws_def
      reads_no_int_def fresh_task_id_0)

lemma fresh_task_id_low:
  "fresh_task_id (low_draws 0) = ''00000000''" "fresh_task_id (low_draws 1) = ''00000000''"
  by (simp_all add: low_draws_def fresh_task_id_def uuid_str_def uuid4_def uuid_hex_def
      hexdigit_def upt_rec)

lemma parse_two_bare_tasks_input:
  "task_ids_of (parse_response reads_no_int low_draws two_bare_tasks_input 1)
     = Inr [''00000000'', ''00000000'']"
  using fresh_task_id_low
  by (simp add: task_ids_of_def parse_eval two_bare_tasks_input_def reads_no_int_def)

subsection \<open>The identifier of a task\<close>

text \<open>
  C3, as the code has it. A task whose raw entry lacks \<^verbatim>\<open>task_id\<close> gets the first 8
  characters of the UUID drawn for it: 8 lower-case hexadecimal digits, so never the
  empty string. A task whose raw entry has \<^verbatim>\<open>task_id\<close> keeps that string. Nothing
  compares the identifiers of one result with each other.
\<close>

theorem task_id_given_or_synthesized:
  assumes "parse_response ios rnd (JObj rd) t = Inr r"
    and "py_iter (dget rd ''nurse_tasks'' (JArr [])) = Inr raw_tasks"
  shows "length (res_nurse_tasks r) = length raw_tasks \<and>
     (\<forall>i < length raw_tasks. \<exists>task. raw_tasks ! i = JObj task \<and>
        (case map_of task ''task_id'' of
           None \<Rightarrow>
             task_id (res_nurse_tasks r ! i) = take 8 (uuid_str (uuid4 (rnd i))) \<and>
             length (task_id (res_nurse_tasks r ! i)) = 8 \<and>
             task_id (res_nurse_tasks r ! i) \<noteq> [] \<and>
             set (task_id (res_nurse_tasks r ! i)) \<subseteq> hex_chars
         | Some v \<Rightarrow> v = JStr (task_id (res_nurse_tasks r ! i))))"
proof -
  from assms obtain tasks where
    tasks: "tasks_of ios rnd 0 raw_tasks = Inr tasks" and
    r: "res_nurse_tasks r = tasks"
    by (auto simp: parse_response_Inr)
  have each: "\<exists>task. raw_tasks ! i = JObj task \<and>
        (case map_of task ''task_id'' of
           None \<Rightarrow>
             task_id (tasks ! i) = take 8 (uuid_str (uuid4 (rnd i))) \<and>
             length (task_id (tasks ! i)) = 8 \<and>
             task_id (tasks ! i) \<noteq> [] \<and>
             set (task_id (tasks ! i)) \<subseteq> hex_chars
         | Some v \<Rightarrow> v = JStr (task_id (tasks ! i)))"
    if "i < length raw_tasks" for i
  proof -
    from task_of_task_id[OF tasks_of_nth(2)[OF tasks that]] obtain d where
      d: "raw_tasks ! i = JObj d" and
      c: "case map_of d ''task_id'' of
            None \<Rightarrow> task_id (tasks ! i) = fresh_task_id (rnd i)
          | Some v \<Rightarrow> v = JStr (task_id (tasks ! i))"
      by blast
    show ?thesis
      using d c fresh_task_id_shape[of "rnd i"]
      by (auto simp: fresh_task_id_def split: option.splits)
  qed
  show ?thesis
    unfolding r using each tasks_of_nth(1)[OF tasks] by blast
qed

theorem task_id_given_or_synthesized_witness:
  "parse_response (\<lambda>s. None) (\<lambda>n. 0) (JObj ward_fields) 1 = Inr (ward_result 1) \<and>
   map_of [(''description'', JStr ''Give paracetamol''), (''priority'', JStr ''HIGH''),
            (''task_type'', JStr ''medication''), (''status'', JStr ''IN_PROGRESS''),
            (''medication_details'', ward_medication)] ''task_id'' = None \<and>
   task_id (res_nurse_tasks (ward_result 1) ! 0) = take 8 (uuid_str (uuid4 0)) \<and>
   task_id (res_nurse_tasks (ward_result 1) ! 0) = ''00000000'' \<and>
   task_id (res_nurse_tasks (ward_result 1) ! 1) = ''t-7''"
proof -
  have h1: "parse_response (\<lambda>s. None) (\<lambda>n. 0) (JObj ward_fields) 1 = Inr (ward_result 1)"
    by (rule parse_ward_input)
  have f: "take 8 (uuid_str (uuid4 0)) = ''00000000''"
    using fresh_task_id_0 by (simp add: fresh_task_id_def)
  show ?thesis
    using task_id_given_or_synthesized[OF h1 ward_nurse_tasks] h1 f
    by (simp add: ward_defs)
qed

theorem task_ids_not_distinct_counterexample:
  "task_ids_of (parse_response reads_no_int zero_draws repeated_id_input 1)
     = Inr [''00000000'', ''dup'', ''dup''] \<and>
   \<not> distinct [''00000000'', ''dup'', ''dup''] \<and>
   low_draws 0 \<noteq> low_draws 1 \<and>
   task_ids_of (parse_response reads_no_int low_draws two_bare_tasks_input 1)
     = Inr [''00000000'', ''00000000''] \<and>
   \<not> distinct [''00000000'', ''00000000'']"
  using parse_repeated_id_input parse_two_bare_tasks_input
  by (simp add: low_draws_def)

lemma wait_processed_trace:
  assumes "wait_processed get n f tr = Some y"
  shows "\<exists>extra. snd y = tr @ extra \<and> set extra \<subseteq> {Sleep, FilesGet}"
  using assms
proof (induction rule: wait_processed.raw_induct[rotated 1, consumes 1, case_names step])
  case (step wp get n f tr y)
  show ?case
  proof (cases "rf_state f")
    case None
    then show ?thesis using step(2) by auto
  next
    case (Some s)
    show ?thesis
    proof (cases "s = ''PROCESSING''")
      case False
      then show ?thesis using step(2) Some by auto
    next
      case True
      show ?thesis
      proof (cases "get n")
        case (Inl e)
        then show ?thesis using step(2) Some True by auto
      next
        case (Inr f')
        then have "wp get (Suc n) f' (tr @ [Sleep, FilesGet]) = Some y"
          using step(2) Some True by simp
        from step(1)[OF this] obtain extra where
          "snd y = (tr @ [Sleep, FilesGet]) @ extra" "set extra \<subseteq> {Sleep, FilesGet}"
          by blast
        then show ?thesis by (intro exI[of _ "[Sleep, FilesGet] @ extra"]) auto
      qed
    qed
  qed
qed

lemma wait_processed_upload_trace:
  assumes "wait_processed get 0 f [FilesUpload] = Some (x, tr)"
  shows "FilesDelete \<notin> set tr" "GenerateContent \<notin> set tr"
  using wait_processed_trace[OF assms] by auto

lemma cleanup_uploaded_attempts: "FilesDelete \<in> set (cleanup_uploaded w)"
  by (simp add: cleanup_uploaded_def split: option.splits)

lemma process_audio_file_delete_iff:
  assumes "process_audio_file w = Some (res, tr)"
  shows "FilesDelete \<in> set tr \<longleftrightarrow>
     GenerateContent \<in> set tr \<and> (\<exists>text. generate_content w = Inr text)"
proof (cases "read_file w = None \<and> get_client w = None")
  case False
  then show ?thesis
    using assms by (auto simp: process_audio_file_def split: option.splits)
next
  case ok: True
  show ?thesis
  proof (cases "files_upload w")
    case (Inl e)
    then show ?thesis using assms ok by (auto simp: process_audio_file_def)
  next
    case (Inr f0)
    show ?thesis
    proof (cases "wait_processed (files_get w) 0 f0 [FilesUpload]")
      case None
      then show ?thesis using assms ok Inr by (simp add: process_audio_file_def)
    next
      case (Some y)
      obtain x tr0 where y: "y = (x, tr0)" by (cases y)
      note clean = wait_processed_upload_trace[OF Some[unfolded y]]
      show ?thesis
      proof (cases x)
        case (Inl e)
        then show ?thesis
          using assms ok \<open>files_upload w = Inr f0\<close> Some y clean
          by (auto simp: process_audio_file_def)
      next
        case xr: (Inr f)
        show ?thesis
        proof (cases "rf_state f = Some ''FAILED''")
          case True
          then show ?thesis
            using assms ok \<open>files_upload w = Inr f0\<close> Some y xr clean
            by (auto simp: process_audio_file_def)
        next
          case False
          then show ?thesis
            using assms ok \<open>files_upload w = Inr f0\<close> Some y xr clean
              cleanup_uploaded_attempts[of w]
            by (cases "generate_content w") (auto simp: process_audio_file_def)
        qed
      qed
    qed
  qed
qed

lemma process_audio_file_delete_outcome:
  "map_option fst (process_audio_file (w\<lparr>files_delete := outcome\<rparr>))
     = map_option fst (process_audio_file w)"
  by (simp add: process_audio_file_def get_client_def loads_text_def
      split: option.splits sum.splits prod.splits)

lemma audio_file_failed_generation:
  "process_audio_file failed_generation_world
     = Some (Inl CollaboratorError, [FilesUpload, GenerateContent])"
  by (simp add: process_audio_file_def failed_generation_world_def quiet_world_def
      get_client_def wait_processed.simps active_file_def)

lemma audio_file_failed_state:
  "process_audio_file failed_state_world = Some (Inl ProcessingFailed, [FilesUpload])"
  by (simp add: process_audio_file_def failed_state_world_def quiet_world_def
      get_client_def wait_processed.simps active_file_def)

lemma audio_file_failed_delete:
  "process_audio_file failed_delete_world
     = Some (Inr (empty_result 3),
             [FilesUpload, GenerateContent, FilesDelete, Swallowed CollaboratorError])"
  by (simp add: process_audio_file_def failed_delete_world_def quiet_world_def
      get_client_def loads_text_def bind_res_def parse_empty_object wait_processed.simps
      active_file_def cleanup_uploaded_def)

section \<open>Properties of the entry points\<close>

subsection \<open>Deleting the uploaded file\<close>

text \<open>
  C5, as the code has it. In \<^verbatim>\<open>process_audio_file\<close> the deletion of the uploaded file is
  attempted exactly on the runs in which the generation call was reached and returned a
  response; it is attempted before the response is decoded, so also when decoding or
  normalizing then fails. A failure of the deletion is swallowed: whatever the deletion
  does, the caller gets the same result or error.
\<close>

theorem remote_file_deleted_after_generation:
  "(process_audio_file w = Some (res, tr) \<longrightarrow>
      (FilesDelete \<in> set tr \<longleftrightarrow>
         GenerateContent \<in> set tr \<and> (\<exists>text. generate_content w = Inr text))) \<and>
   map_option fst (process_audio_file (w\<lparr>files_delete := outcome\<rparr>))
     = map_option fst (process_audio_file w)"
  using process_audio_file_delete_iff process_audio_file_delete_outcome by blast

theorem remote_file_deleted_after_generation_witness:
  "process_audio_file quiet_world
     = Some (Inr (empty_result 3), [FilesUpload, GenerateContent, FilesDelete]) \<and>
   FilesDelete \<in> set [FilesUpload, GenerateContent, FilesDelete] \<and>
   generate_content quiet_world = Inr (Some ''{}'') \<and>
   map_option fst (process_audio_file (quiet_world\<lparr>files_delete := Some CollaboratorError\<rparr>))
     = Some (Inr (empty_result 3))"
proof -
  have h: "process_audio_file quiet_world
     = Some (Inr (empty_result 3), [FilesUpload, GenerateContent, FilesDelete])"
    by (rule audio_file_quiet_world)
  show ?thesis
    using h remote_file_deleted_after_generation
        [of quiet_world "Inr (empty_result 3)" "[FilesUpload, GenerateContent, FilesDelete]"
            "Some CollaboratorError"]
    by (simp add: quiet_world_def)
qed

theorem remote_file_not_deleted_counterexample:
  "process_audio_file failed_generation_world
     = Some (Inl CollaboratorError, [FilesUpload, GenerateContent]) \<and>
   FilesUpload \<in> set [FilesUpload, GenerateContent] \<and>
   FilesDelete \<notin> set [FilesUpload, GenerateContent] \<and>
   process_audio_file failed_state_world = Some (Inl ProcessingFailed, [FilesUpload]) \<and>
   FilesDelete \<notin> set [FilesUpload]"
  using audio_file_failed_generation audio_file_failed_state by simp

lemmas upload_eval =
  upload_ext_def lstrip_dot_def lower_def lower_char_def path_suffix_def path_name_def
  or_else_def allowed_types_def allowed_exts_def

lemma api_key_set_quiet_world: "api_key_set quiet_world"
  by (simp add: api_key_set_def quiet_world_def)

lemma quiet_world_temp: "write_temp quiet_world = None" "unlink_temp quiet_world = None"
  by (simp_all add: quiet_world_def)

lemma process_audio_pdf:
  "process_audio quiet_world pdf_upload = Some (HTTPException 400, [])"
  by (simp add: process_audio_def api_key_set_quiet_world pdf_upload_def upload_eval)

lemma process_audio_mp3_typed:
  "process_audio quiet_world mp3_typed_upload
     = Some (Ok (empty_result 3),
             [WriteTemp, FilesUpload, GenerateContent, FilesDelete, UnlinkTemp])"
  by (simp add: process_audio_def api_key_set_quiet_world mp3_typed_upload_def upload_eval
      audio_file_quiet_world quiet_world_temp)

lemma process_audio_mp3_named:
  "process_audio quiet_world mp3_named_upload
     = Some (Ok (empty_result 3),
             [WriteTemp, FilesUpload, GenerateContent, FilesDelete, UnlinkTemp])"
  by (simp add: process_audio_def api_key_set_quiet_world mp3_named_upload_def upload_eval
      audio_file_quiet_world quiet_world_temp)

lemma process_audio_keyless:
  "process_audio keyless_world pdf_upload = Some (HTTPException 500, [])"
  by (simp add: process_audio_def api_key_set_def keyless_world_def)

subsection \<open>The type of an upload\<close>

text \<open>
  C6, as the code has it. Without the credential every upload is rejected with status
  500, before anything else. With it, an upload is rejected with status 400, before the
  temporary file is written and before any call to the collaborator, exactly when its
  content type (\<^verbatim>\<open>audio/mpeg\<close> when the request gives none) is not among \<^verbatim>\<open>audio/mpeg\<close>,
  \<^verbatim>\<open>audio/mp3\<close>, \<^verbatim>\<open>audio/wav\<close>, \<^verbatim>\<open>audio/x-wav\<close>, \<^verbatim>\<open>audio/webm\<close>, \<^verbatim>\<open>audio/ogg\<close>, \<^verbatim>\<open>audio/mp4\<close>,
  \<^verbatim>\<open>audio/x-m4a\<close>, \<^verbatim>\<open>video/webm\<close> and the lower-cased extension of its file name is not
  among mp3, wav, webm, ogg, m4a. An upload that matches the list or the extension never
  gets status 400.
\<close>

theorem upload_type_check:
  "set (map fst allowed_types) =
     {''audio/mpeg'', ''audio/mp3'', ''audio/wav'', ''audio/x-wav'', ''audio/webm'',
      ''audio/ogg'', ''audio/mp4'', ''audio/x-m4a'', ''video/webm''} \<and>
   set allowed_exts = {''mp3'', ''wav'', ''webm'', ''ogg'', ''m4a''} \<and>
   (\<not> api_key_set w \<longrightarrow> process_audio w file = Some (HTTPException 500, [])) \<and>
   (api_key_set w \<and>
    or_else (content_type file) ''audio/mpeg'' \<notin> set (map fst allowed_types) \<and>
    upload_ext file \<notin> set allowed_exts \<longrightarrow>
      process_audio w file = Some (HTTPException 400, [])) \<and>
   (or_else (content_type file) ''audio/mpeg'' \<in> set (map fst allowed_types) \<or>
    upload_ext file \<in> set allowed_exts \<longrightarrow>
      (\<forall>tr. process_audio w file \<noteq> Some (HTTPException 400, tr)))"
proof (intro conjI impI)
  show "set (map fst allowed_types) =
           {''audio/mpeg'', ''audio/mp3'', ''audio/wav'', ''audio/x-wav'', ''audio/webm'',
            ''audio/ogg'', ''audio/mp4'', ''audio/x-m4a'', ''video/webm''}"
    by (simp add: allowed_types_def)
  show "set allowed_exts = {''mp3'', ''wav'', ''webm'', ''ogg'', ''m4a''}"
    by (simp add: allowed_exts_def)
  show "process_audio w file = Some (HTTPException 500, [])" if "\<not> api_key_set w"
    using that by (simp add: process_audio_def)
  have none: "map_of allowed_types ct = None \<longleftrightarrow> ct \<notin> set (map fst allowed_types)" for ct
    by (simp add: map_of_eq_None_iff)
  show "process_audio w file = Some (HTTPException 400, [])"
    if "api_key_set w \<and>
        or_else (content_type file) ''audio/mpeg'' \<notin> set (map fst allowed_types) \<and>
        upload_ext file \<notin> set allowed_exts"
    using that by (simp add: process_audio_def none)
  show "\<forall>tr. process_audio w file \<noteq> Some (HTTPException 400, tr)"
    if "or_else (content_type file) ''audio/mpeg'' \<in> set (map fst allowed_types) \<or>
        upload_ext file \<in> set allowed_exts"
  proof -
    have pass: "\<not> (map_of allowed_types (or_else (content_type file) ''audio/mpeg'') = None \<and>
        upload_ext file \<notin> set allowed_exts)"
      using that by (auto simp: none)
    show ?thesis
      using pass
      by (auto simp: process_audio_def Let_def split: option.splits sum.splits prod.splits)
  qed
qed

theorem upload_type_check_witness:
  "api_key_set quiet_world \<and>
   or_else (content_type pdf_upload) ''audio/mpeg'' \<notin> set (map fst allowed_types) \<and>
   upload_ext pdf_upload \<notin> set allowed_exts \<and>
   process_audio quiet_world pdf_upload = Some (HTTPException 400, []) \<and>
   upload_ext mp3_named_upload \<in> set allowed_exts \<and>
   process_audio quiet_world mp3_named_upload \<noteq> Some (HTTPException 400, []) \<and>
   \<not> api_key_set keyless_world \<and>
   process_audio keyless_world mp3_named_upload = Some (HTTPException 500, [])"
proof -
  have a: "or_else (content_type pdf_upload) ''audio/mpeg'' \<notin> set (map fst allowed_types)"
    by (simp add: pdf_upload_def upload_eval)
  have b: "upload_ext pdf_upload \<notin> set allowed_exts"
    by (simp add: pdf_upload_def upload_eval)
  have c: "upload_ext mp3_named_upload \<in> set allowed_exts"
    by (simp add: mp3_named_upload_def upload_eval)
  have d: "\<not> api_key_set keyless_world"
    by (simp add: api_key_set_def keyless_world_def)
  show ?thesis
    using a b c d api_key_set_quiet_world
      upload_type_check[of quiet_world pdf_upload]
      upload_type_check[of quiet_world mp3_named_upload]
      upload_type_check[of keyless_world mp3_named_upload]
    by blast
qed

theorem upload_type_check_counterexample:
  "or_else (content_type mp3_typed_upload) ''audio/mpeg'' \<notin> set spec_allow_list \<and>
   upload_ext mp3_typed_upload \<notin> set [''mp3'', ''wav'', ''webm'', ''ogg'', ''m4a''] \<and>
   process_audio quiet_world mp3_typed_upload
     = Some (Ok (empty_result 3),
             [WriteTemp, FilesUpload, GenerateContent, FilesDelete, UnlinkTemp]) \<and>
   or_else (content_type pdf_upload) ''audio/mpeg'' \<notin> set spec_allow_list \<and>
   upload_ext pdf_upload \<notin> set [''mp3'', ''wav'', ''webm'', ''ogg'', ''m4a''] \<and>
   process_audio keyless_world pdf_upload = Some (HTTPException 500, [])"
proof -
  have "or_else (content_type mp3_typed_upload) ''audio/mpeg'' \<notin> set spec_allow_list"
    by (simp add: mp3_typed_upload_def or_else_def spec_allow_list_def)
  moreover have "upload_ext mp3_typed_upload \<notin> set [''mp3'', ''wav'', ''webm'', ''ogg'', ''m4a'']"
    by (simp add: mp3_typed_upload_def upload_eval)
  moreover have "or_else (content_type pdf_upload) ''audio/mpeg'' \<notin> set spec_allow_list"
    by (simp add: pdf_upload_def or_else_def spec_allow_list_def)
  moreover have "upload_ext pdf_upload \<notin> set [''mp3'', ''wav'', ''webm'', ''ogg'', ''m4a'']"
    by (simp add: pdf_upload_def upload_eval)
  ultimately show ?thesis
    using process_audio_mp3_typed process_audio_keyless by simp
qed












































section \<open>Missing and extra fields\<close>




end
